theory Spec2Isabelle
  imports Main "HOL-Library.Word" "HOL-Library.Char_ord" "HOL-Library.List_Lexorder"
begin

unbundle bit_operations_syntax

section \<open>Text helpers\<close>

definition newline :: string where
  "newline = [CHR 0x0A]"

text \<open>\<^verbatim>\<open>strings.Contains\<close>.\<close>

fun strings_Contains :: "string \<Rightarrow> string \<Rightarrow> bool" where
  "strings_Contains [] sub = (sub = [])"
| "strings_Contains (c # cs) sub =
     (take (length sub) (c # cs) = sub \<or> strings_Contains cs sub)"

text \<open>The verb \<^verbatim>\<open>%d\<close> on an unsigned number: its decimal digits.\<close>

definition digit_char :: "nat \<Rightarrow> char" where
  "digit_char d = char_of (48 + d)"

fun Itoa :: "nat \<Rightarrow> string" where
  "Itoa n = (if n < 10 then [digit_char n] else Itoa (n div 10) @ [digit_char (n mod 10)])"

declare Itoa.simps [simp del]

text \<open>
  The verb \<^verbatim>\<open>%q\<close> is \<^verbatim>\<open>strconv.Quote\<close>, a parameter \<open>Q\<close> of the compilers below. On
  ASCII text it does the following (a byte above 127 is written here as a hex escape,
  which is what the library does for a byte that is not part of valid UTF-8).
\<close>

definition hex_digit :: "nat \<Rightarrow> char" where
  "hex_digit d = (if d < 10 then char_of (48 + d) else char_of (87 + d))"

definition quote_byte :: "char \<Rightarrow> string" where
  "quote_byte c =
     (let v = (of_char c :: nat) in
      if v = 34 then [CHR 0x5C, CHR 0x22]
      else if v = 92 then [CHR 0x5C, CHR 0x5C]
      else if 32 \<le> v \<and> v < 127 then [c]
      else if v = 7 then [CHR 0x5C, CHR ''a'']
      else if v = 8 then [CHR 0x5C, CHR ''b'']
      else if v = 12 then [CHR 0x5C, CHR ''f'']
      else if v = 10 then [CHR 0x5C, CHR ''n'']
      else if v = 13 then [CHR 0x5C, CHR ''r'']
      else if v = 9 then [CHR 0x5C, CHR ''t'']
      else if v = 11 then [CHR 0x5C, CHR ''v'']
      else [CHR 0x5C, CHR ''x'', hex_digit (v div 16), hex_digit (v mod 16)])"

definition go_Quote :: "string \<Rightarrow> string" where
  "go_Quote s = [CHR 0x22] @ concat (map quote_byte s) @ [CHR 0x22]"


section \<open>Addresses and networks\<close>

text \<open>
  The program handles addresses through Go's \<^verbatim>\<open>net\<close> package. A \<^verbatim>\<open>net.IP\<close> is a byte
  slice; every address the validator works on has passed through \<^verbatim>\<open>To4()\<close>, which
  returns either nil or exactly four bytes. The four-byte form is the type \<open>ipv4\<close>;
  an address with no four-byte form keeps its sixteen bytes.
\<close>

type_synonym byte = "8 word"

datatype ipv4 = IPv4 byte byte byte byte

datatype netIP = Addr4 ipv4 | Addr16 "byte list"

fun To4 :: "netIP \<Rightarrow> ipv4 option" where
  "To4 (Addr4 a) = Some a"
| "To4 (Addr16 bs) = None"

fun octets :: "ipv4 \<Rightarrow> byte list" where
  "octets (IPv4 a b c d) = [a, b, c, d]"

text \<open>\<^verbatim>\<open>net.IPNet\<close>: a network number and a mask (four or sixteen bytes).\<close>

record IPNet =
  net_IP :: netIP
  net_Mask :: "byte list"

text \<open>
  \<^verbatim>\<open>networkNumberAndMask\<close> of package net; \<open>None\<close> is its \<^verbatim>\<open>nil, nil\<close> result. A
  sixteen-byte mask on a four-byte network number is cut to its last four bytes.
\<close>

definition networkNumberAndMask :: "IPNet \<Rightarrow> (byte list \<times> byte list) option" where
  "networkNumberAndMask n =
     (let m = net_Mask n in
      case net_IP n of
        Addr4 ip \<Rightarrow>
          if length m = 4 then Some (octets ip, m)
          else if length m = 16 then Some (octets ip, drop 12 m)
          else None
      | Addr16 bs \<Rightarrow>
          if length bs \<noteq> 16 then None
          else if length m = 16 then Some (bs, m)
          else None)"

text \<open>
  \<^verbatim>\<open>IPNet.Contains\<close> for an address in four-byte form: the lengths must agree and the
  masked bytes must be equal, position by position.
\<close>

definition Contains :: "IPNet \<Rightarrow> ipv4 \<Rightarrow> bool" where
  "Contains n ip =
     (case networkNumberAndMask n of
        None \<Rightarrow> False
      | Some (nn, m) \<Rightarrow>
          length nn = 4 \<and> map2 (AND) nn m = map2 (AND) (octets ip) m)"

text \<open>
  The two text parsers of package net are parameters of the model: \<open>ParseIP\<close> is
  \<^verbatim>\<open>net.ParseIP\<close> (\<open>None\<close> for nil) and \<open>ParseCIDR\<close> is \<^verbatim>\<open>net.ParseCIDR\<close> (\<open>None\<close>
  for an error). Every theorem below holds for any behaviour of the two; the instance
  \<open>go_net\<close> further down is used to run the model on concrete texts.
\<close>

record netlib =
  ParseIP :: "string \<Rightarrow> netIP option"
  ParseCIDR :: "string \<Rightarrow> (netIP \<times> IPNet) option"

subsection \<open>The validator (netutil)\<close>

text \<open>\<^verbatim>\<open>parseIPv4\<close>: \<open>None\<close> is the error "invalid IPv4 address".\<close>

definition parseIPv4 :: "netlib \<Rightarrow> string \<Rightarrow> ipv4 option" where
  "parseIPv4 L s = (case ParseIP L s of None \<Rightarrow> None | Some ip \<Rightarrow> To4 ip)"

text \<open>
  \<^verbatim>\<open>parseCIDRv4\<close>: \<open>None\<close> is either the library's error or "IPv4 CIDR required"; on
  success the network's IP field is overwritten with the parsed address in four-byte
  form.
\<close>

definition parseCIDRv4 :: "netlib \<Rightarrow> string \<Rightarrow> IPNet option" where
  "parseCIDRv4 L s =
     (case ParseCIDR L s of
        None \<Rightarrow> None
      | Some (ip, ipnet) \<Rightarrow>
          (case To4 ip of
             None \<Rightarrow> None
           | Some ip4 \<Rightarrow> Some (ipnet\<lparr>net_IP := Addr4 ip4\<rparr>)))"

text \<open>\<^verbatim>\<open>binary.BigEndian.Uint32\<close> on four bytes.\<close>

definition BigEndian_Uint32 :: "byte \<Rightarrow> byte \<Rightarrow> byte \<Rightarrow> byte \<Rightarrow> 32 word" where
  "BigEndian_Uint32 b0 b1 b2 b3 =
     (ucast b3 OR push_bit 8 (ucast b2) OR push_bit 16 (ucast b1) OR push_bit 24 (ucast b0))"

fun ipToUint32 :: "ipv4 \<Rightarrow> 32 word" where
  "ipToUint32 (IPv4 a b c d) = BigEndian_Uint32 a b c d"

definition ipLessOrEqual :: "ipv4 \<Rightarrow> ipv4 \<Rightarrow> bool" where
  "ipLessOrEqual a b = (ipToUint32 a \<le> ipToUint32 b)"

definition ipInNet :: "ipv4 \<Rightarrow> IPNet \<Rightarrow> bool" where
  "ipInNet ip ipnet = Contains ipnet ip"

text \<open>The errors \<^verbatim>\<open>validateDHCPRange\<close> returns, and their texts.\<close>

datatype range_error =
    BridgeSubnetInvalid
  | InvalidRangeStartIP
  | InvalidRangeEndIP
  | RangeOutsideSubnet
  | RangeInverted
  | RangeIncludesGateway


text \<open>\<^verbatim>\<open>validateDHCPRange\<close>: \<open>None\<close> is the nil error.\<close>

definition validateDHCPRange ::
  "netlib \<Rightarrow> string \<Rightarrow> string \<Rightarrow> string \<Rightarrow> string \<Rightarrow> range_error option" where
  "validateDHCPRange L subnet gateway start endT =
     (case parseCIDRv4 L subnet of
        None \<Rightarrow> Some BridgeSubnetInvalid
      | Some ipnet \<Rightarrow>
     (case parseIPv4 L start of
        None \<Rightarrow> Some InvalidRangeStartIP
      | Some startIP \<Rightarrow>
     (case parseIPv4 L endT of
        None \<Rightarrow> Some InvalidRangeEndIP
      | Some endIP \<Rightarrow>
          if \<not> ipInNet startIP ipnet \<or> \<not> ipInNet endIP ipnet then Some RangeOutsideSubnet
          else if \<not> ipLessOrEqual startIP endIP then Some RangeInverted
          else
            (case parseIPv4 L gateway of
               Some gwIP \<Rightarrow>
                 if ipLessOrEqual startIP gwIP \<and> ipLessOrEqual gwIP endIP
                 then Some RangeIncludesGateway
                 else None
             | None \<Rightarrow> None))))"

text \<open>
  The value of an address as an unsigned 32-bit number, most significant octet first:
  the order the specification calls the unsigned 32-bit order of the four octets.
\<close>

fun addr_value :: "ipv4 \<Rightarrow> nat" where
  "addr_value (IPv4 a b c d) = unat a * 2 ^ 24 + unat b * 2 ^ 16 + unat c * 2 ^ 8 + unat d"

subsection \<open>The library on dotted-decimal texts\<close>

text \<open>
  What \<^verbatim>\<open>net.ParseIP\<close> and \<^verbatim>\<open>net.ParseCIDR\<close> do on IPv4 texts (Go 1.17 and later):
  four decimal fields separated by dots, each at most 255 and without a leading zero;
  a CIDR text is such an address, a slash and a decimal prefix length of at most 32.
  Texts in IPv6 notation are not covered by this instance.
\<close>

fun digit_val :: "char \<Rightarrow> nat option" where
  "digit_val c =
     (let v = (of_char c :: nat) in if 48 \<le> v \<and> v \<le> 57 then Some (v - 48) else None)"

fun parse_dec_acc :: "nat \<Rightarrow> string \<Rightarrow> nat option" where
  "parse_dec_acc n [] = Some n"
| "parse_dec_acc n (c # cs) =
     (case digit_val c of None \<Rightarrow> None | Some d \<Rightarrow> parse_dec_acc (n * 10 + d) cs)"

definition parse_dec :: "string \<Rightarrow> nat option" where
  "parse_dec s = (if s = [] then None else parse_dec_acc 0 s)"

fun split_on :: "char \<Rightarrow> string \<Rightarrow> string list" where
  "split_on sep [] = [[]]"
| "split_on sep (c # cs) =
     (if c = sep then [] # split_on sep cs
      else (case split_on sep cs of
              [] \<Rightarrow> [[c]]
            | w # ws \<Rightarrow> (c # w) # ws))"

definition parse_octet :: "string \<Rightarrow> byte option" where
  "parse_octet s =
     (case parse_dec s of
        None \<Rightarrow> None
      | Some n \<Rightarrow>
          if 255 < n then None
          else if 1 < length s \<and> hd s = CHR ''0'' then None
          else Some (of_nat n))"

definition parse_dotted :: "string \<Rightarrow> ipv4 option" where
  "parse_dotted s =
     (case map parse_octet (split_on CHR ''.'' s) of
        [Some a, Some b, Some c, Some d] \<Rightarrow> Some (IPv4 a b c d)
      | _ \<Rightarrow> None)"

fun CIDRMask :: "nat \<Rightarrow> nat \<Rightarrow> byte list" where
  "CIDRMask 0 n = []"
| "CIDRMask (Suc l) n =
     (if 8 \<le> n then 255 # CIDRMask l (n - 8)
      else NOT (drop_bit n 255) # CIDRMask l 0)"

definition split_slash :: "string \<Rightarrow> (string \<times> string) option" where
  "split_slash s =
     (if CHR ''/'' \<in> set s
      then Some (takeWhile (\<lambda>c. c \<noteq> CHR ''/'') s, tl (dropWhile (\<lambda>c. c \<noteq> CHR ''/'') s))
      else None)"

definition go_ParseCIDR :: "string \<Rightarrow> (netIP \<times> IPNet) option" where
  "go_ParseCIDR s =
     (case split_slash s of
        None \<Rightarrow> None
      | Some (addr, plen) \<Rightarrow>
          (case parse_dotted addr of
             None \<Rightarrow> None
           | Some ip \<Rightarrow>
               (case parse_dec plen of
                  None \<Rightarrow> None
                | Some n \<Rightarrow>
                    if 32 < n then None
                    else
                      (let m = CIDRMask 4 n in
                       case map2 (AND) (octets ip) m of
                         [a, b, c, d] \<Rightarrow>
                           Some (Addr4 ip, \<lparr>net_IP = Addr4 (IPv4 a b c d), net_Mask = m\<rparr>)
                       | _ \<Rightarrow> None))))"

definition go_net :: netlib where
  "go_net = \<lparr>ParseIP = (\<lambda>s. map_option Addr4 (parse_dotted s)), ParseCIDR = go_ParseCIDR\<rparr>"

subsection \<open>Masks and printing\<close>







section \<open>The declarative model (types, config)\<close>

record PortForward =
  ID :: string
  Protocol :: string
  ExtPort :: "16 word"
  IntIP :: string
  IntPort :: "16 word"
  Comment :: string
  Enabled :: bool

record DHCPConfig =
  RangeStart :: string
  RangeEnd :: string
  LeaseTime :: string
  DNS1 :: string
  DNS2 :: string

text \<open>The DHCP field is a pointer in the source: \<open>None\<close> is nil.\<close>

record BridgeConfig =
  Name :: string
  Subnet :: string
  GatewayIP :: string
  NATEnabled :: bool
  DHCP :: "DHCPConfig option"
  Forwards :: "PortForward list"

text \<open>The mutex of the source's Config is not a field here; \<open>cfg_path\<close> is its path field.\<close>

record Config =
  ListenAddr :: string
  AuthMode :: string
  AuthPamService :: string
  AuthAllowUsers :: "string list"
  AdminUser :: string
  AdminPassHash :: string
  SessionSecret :: string
  ProxmoxURL :: string
  ProxmoxTokenID :: string
  ProxmoxSecret :: string
  ProxmoxNode :: string
  WanInterface :: string
  Bridges :: "BridgeConfig list"
  cfg_path :: string

section \<open>The host: files, external commands, log\<close>

text \<open>
  What the program does to the host is recorded in a \<open>world\<close>: the contents of the
  files it touches and the sequence of its external actions. How the host answers (a
  write or rename that fails, the output and exit status of a command) is given by an
  \<open>os_env\<close>. A failed write may leave anything at the path it was writing, which the
  environment chooses.
\<close>

datatype app_error =
    MarshalConfig
  | WriteTempConfig
  | RenameConfig
  | WriteRules
  | RenameRules
  | NftApply string
  | NftDeleteTable string
  | WriteIPForward
  | WriteDnsmasqConfig
  | RestartDnsmasq string
  | StopDnsmasq string

datatype event =
    EvLock
  | EvUnlock
  | EvWriteFile string string
  | EvRename string string
  | EvRemove string
  | EvMkdirAll string
  | EvExec "string list"
  | EvLog string "app_error option"
  | EvCall string Config
  | EvAPI string "string list"

record world =
  files :: "string \<rightharpoonup> string"
  trace :: "event list"

datatype write_outcome = Written | WriteFailed "string option"

record os_env =
  WriteFile_outcome :: "string \<Rightarrow> string \<Rightarrow> write_outcome"
  Rename_ok :: "string \<Rightarrow> string \<Rightarrow> bool"
  Exec_result :: "string list \<Rightarrow> string \<times> bool"

definition emit :: "event \<Rightarrow> world \<Rightarrow> world" where
  "emit ev w = w\<lparr>trace := trace w @ [ev]\<rparr>"

text \<open>\<^verbatim>\<open>os.WriteFile\<close>: the boolean is \<^verbatim>\<open>err == nil\<close>.\<close>

definition os_WriteFile :: "os_env \<Rightarrow> string \<Rightarrow> string \<Rightarrow> world \<Rightarrow> bool \<times> world" where
  "os_WriteFile E p data w =
     (case WriteFile_outcome E p data of
        Written \<Rightarrow> (True, emit (EvWriteFile p data) (w\<lparr>files := (files w)(p \<mapsto> data)\<rparr>))
      | WriteFailed rest \<Rightarrow>
          (False, emit (EvWriteFile p data) (w\<lparr>files := (files w)(p := rest)\<rparr>)))"

text \<open>\<^verbatim>\<open>os.Rename\<close>: on success the new path holds what the old one held; on failure nothing moves.\<close>

definition os_Rename :: "os_env \<Rightarrow> string \<Rightarrow> string \<Rightarrow> world \<Rightarrow> bool \<times> world" where
  "os_Rename E old new w =
     (if Rename_ok E old new \<and> files w old \<noteq> None
      then (True, emit (EvRename old new)
                    (w\<lparr>files := ((files w)(new := files w old))(old := None)\<rparr>))
      else (False, emit (EvRename old new) w))"

definition os_Remove :: "string \<Rightarrow> world \<Rightarrow> world" where
  "os_Remove p w = emit (EvRemove p) (w\<lparr>files := (files w)(p := None)\<rparr>)"

text \<open>\<^verbatim>\<open>exec.Command(...).CombinedOutput()\<close>: the output and whether the error is nil.\<close>

definition exec_CombinedOutput :: "os_env \<Rightarrow> string list \<Rightarrow> world \<Rightarrow> (string \<times> bool) \<times> world" where
  "exec_CombinedOutput E args w = (Exec_result E args, emit (EvExec args) w)"

text \<open>The events a run added to the trace.\<close>

definition new_events :: "world \<Rightarrow> world \<Rightarrow> event list" where
  "new_events w w' = drop (length (trace w)) (trace w')"

fun is_write_to :: "string \<Rightarrow> event \<Rightarrow> bool" where
  "is_write_to p (EvWriteFile q data) = (q = p)"
| "is_write_to p (EvRename old new) = (new = p)"
| "is_write_to p ev = False"

section \<open>NAT compiler and reconciler (nftables)\<close>

definition nftBinary :: string where "nftBinary = ''/usr/sbin/nft''"
definition rulesDir :: string where "rulesDir = ''/run/pnat''"
definition rulesFile :: string where "rulesFile = ''/run/pnat/rules.nft''"
definition sysctlFile :: string where "sysctlFile = ''/etc/sysctl.d/90-pnat.conf''"
definition sysctlProc :: string where "sysctlProc = ''/proc/sys/net/ipv4/ip_forward''"

text \<open>One line of the prerouting chain: the \<^verbatim>\<open>Sprintf\<close> in the innermost loop.\<close>

definition dnat_rule :: "(string \<Rightarrow> string) \<Rightarrow> string \<Rightarrow> string \<Rightarrow> PortForward \<Rightarrow> string \<Rightarrow> string" where
  "dnat_rule Q wan proto f comment =
     ''        iifname '' @ Q wan @ '' '' @ proto @ '' dport '' @ Itoa (unat (ExtPort f)) @
     '' dnat to '' @ IntIP f @ '':'' @ Itoa (unat (IntPort f)) @ comment @ newline"

text \<open>The body of the loop over a bridge's forwards: what one forward adds to the text.\<close>

definition forward_rules :: "(string \<Rightarrow> string) \<Rightarrow> string \<Rightarrow> PortForward \<Rightarrow> string" where
  "forward_rules Q wan f =
     (if \<not> Enabled f then []
      else
        (let comment = (if Comment f \<noteq> [] then '' comment '' @ Q (Comment f) else []);
             protocols = (if Protocol f = ''tcp+udp'' then [''tcp'', ''udp''] else [Protocol f])
         in concat (map (\<lambda>proto. dnat_rule Q wan proto f comment) protocols)))"

definition prerouting_rules :: "(string \<Rightarrow> string) \<Rightarrow> string \<Rightarrow> BridgeConfig list \<Rightarrow> string" where
  "prerouting_rules Q wan bs =
     concat (map (\<lambda>b. concat (map (forward_rules Q wan) (Forwards b))) bs)"

definition masquerade_rule :: "(string \<Rightarrow> string) \<Rightarrow> string \<Rightarrow> BridgeConfig \<Rightarrow> string" where
  "masquerade_rule Q wan b =
     (if \<not> NATEnabled b then []
      else ''        oifname '' @ Q wan @ '' ip saddr '' @ Subnet b @ '' masquerade'' @ newline)"

definition postrouting_rules :: "(string \<Rightarrow> string) \<Rightarrow> string \<Rightarrow> BridgeConfig list \<Rightarrow> string" where
  "postrouting_rules Q wan bs = concat (map (masquerade_rule Q wan) bs)"

definition ruleset_header :: string where
  "ruleset_header =
     ''# Managed by PNAT - do not edit manually'' @ newline @
     ''add table ip pnat'' @ newline @
     ''flush table ip pnat'' @ newline @ newline @
     ''table ip pnat {'' @ newline @
     ''    chain prerouting {'' @ newline @
     ''        type nat hook prerouting priority dstnat; policy accept;'' @ newline"

definition ruleset_middle :: string where
  "ruleset_middle =
     ''    }'' @ newline @ newline @
     ''    chain postrouting {'' @ newline @
     ''        type nat hook postrouting priority srcnat; policy accept;'' @ newline"

definition ruleset_footer :: string where
  "ruleset_footer = ''    }'' @ newline @ ''}'' @ newline"

definition generateRuleset :: "(string \<Rightarrow> string) \<Rightarrow> Config \<Rightarrow> string" where
  "generateRuleset Q cfg =
     ruleset_header @ prerouting_rules Q (WanInterface cfg) (Bridges cfg) @
     ruleset_middle @ postrouting_rules Q (WanInterface cfg) (Bridges cfg) @
     ruleset_footer"

text \<open>\<^verbatim>\<open>enableIPForward\<close>: a failure to persist the setting is only logged.\<close>

definition enableIPForward :: "os_env \<Rightarrow> world \<Rightarrow> app_error option \<times> world" where
  "enableIPForward E w =
     (case os_WriteFile E sysctlProc ''1'' w of
        (False, w1) \<Rightarrow> (Some WriteIPForward, w1)
      | (True, w1) \<Rightarrow>
          (case os_WriteFile E sysctlFile
                  (''# Managed by PNAT'' @ newline @ ''net.ipv4.ip_forward = 1'' @ newline) w1 of
             (False, w2) \<Rightarrow> (None, emit (EvLog ''WARN: failed to persist sysctl'' None) w2)
           | (True, w2) \<Rightarrow> (None, w2)))"

text \<open>\<^verbatim>\<open>NFTManager.Remove\<close>: deleting a table that is not there counts as success.\<close>

definition nft_Remove :: "os_env \<Rightarrow> world \<Rightarrow> app_error option \<times> world" where
  "nft_Remove E w =
     (case exec_CombinedOutput E [nftBinary, ''delete'', ''table'', ''ip'', ''pnat''] w of
        ((out, False), w1) \<Rightarrow>
          if strings_Contains out ''No such file or directory'' \<or>
             strings_Contains out ''does not exist''
          then (None, w1)
          else (Some (NftDeleteTable out), w1)
      | ((out, True), w1) \<Rightarrow> (None, emit (EvLog ''nftables table removed'' None) w1))"

text \<open>The first loop of \<^verbatim>\<open>Apply\<close>, which sets the two flags \<^verbatim>\<open>hasNAT\<close> and \<^verbatim>\<open>hasRules\<close>.\<close>

definition scan_forwards :: "bool \<Rightarrow> PortForward list \<Rightarrow> bool" where
  "scan_forwards hasRules fs = foldl (\<lambda>r f. if Enabled f then True else r) hasRules fs"

definition scan_bridges :: "BridgeConfig list \<Rightarrow> bool \<times> bool" where
  "scan_bridges bs =
     foldl (\<lambda>(hasNAT, hasRules) b.
              (let (n, r) = (if NATEnabled b then (True, True) else (hasNAT, hasRules))
               in (n, scan_forwards r (Forwards b))))
       (False, False) bs"

text \<open>\<^verbatim>\<open>NFTManager.Apply\<close>.\<close>

definition nft_Apply :: "os_env \<Rightarrow> (string \<Rightarrow> string) \<Rightarrow> Config \<Rightarrow> world \<Rightarrow> app_error option \<times> world" where
  "nft_Apply E Q cfg w =
     (let (hasNAT, hasRules) = scan_bridges (Bridges cfg);
          w1 = (if hasNAT
                then (case enableIPForward E w of
                        (Some err, w') \<Rightarrow> emit (EvLog ''WARN: failed to enable ip_forward'' (Some err)) w'
                      | (None, w') \<Rightarrow> w')
                else w)
      in if \<not> hasRules then nft_Remove E w1
         else
           (let rules = generateRuleset Q cfg;
                w2 = emit (EvMkdirAll rulesDir) w1;
                tmp = rulesFile @ ''.tmp''
            in case os_WriteFile E tmp rules w2 of
                 (False, w3) \<Rightarrow> (Some WriteRules, w3)
               | (True, w3) \<Rightarrow>
                   (case os_Rename E tmp rulesFile w3 of
                      (False, w4) \<Rightarrow> (Some RenameRules, os_Remove tmp w4)
                    | (True, w4) \<Rightarrow>
                        (case exec_CombinedOutput E [nftBinary, ''-f'', rulesFile] w4 of
                           ((out, False), w5) \<Rightarrow> (Some (NftApply out), w5)
                         | ((out, True), w5) \<Rightarrow>
                             (None, emit (EvLog ''nftables rules applied successfully'' None) w5)))))"

section \<open>DHCP compiler and reconciler (dnsmasq)\<close>

definition dnsmasqConfigPath :: string where "dnsmasqConfigPath = ''/etc/pnat/dnsmasq.conf''"
definition dnsmasqLeaseFile :: string where "dnsmasqLeaseFile = ''/var/lib/pnat/dnsmasq.leases''"
definition dnsmasqUnit :: string where "dnsmasqUnit = ''pnat-dnsmasq.service''"

text \<open>The body of the loop of \<^verbatim>\<open>generateConfig\<close>: the stanza of one bridge.\<close>

definition dhcp_block :: "BridgeConfig \<Rightarrow> string" where
  "dhcp_block b =
     (case DHCP b of
        None \<Rightarrow> []
      | Some d \<Rightarrow>
          (let leaseTime = (if LeaseTime d = [] then ''12h'' else LeaseTime d);
               dns = DNS1 d @ (if DNS2 d \<noteq> [] then '','' @ DNS2 d else [])
           in ''# Bridge '' @ Name b @ newline @
              ''interface='' @ Name b @ newline @
              ''dhcp-range='' @ Name b @ '','' @ RangeStart d @ '','' @ RangeEnd d @ '','' @
                leaseTime @ newline @
              ''dhcp-option='' @ Name b @ '',3,'' @ GatewayIP b @ newline @
              (if dns \<noteq> [] then ''dhcp-option='' @ Name b @ '',6,'' @ dns @ newline else []) @
              newline))"

definition dnsmasq_header :: string where
  "dnsmasq_header =
     ''# Managed by PNAT - do not edit manually'' @ newline @
     ''bind-interfaces'' @ newline @
     ''port=0'' @ newline @
     ''keep-in-foreground'' @ newline @
     ''no-daemon'' @ newline @
     ''dhcp-leasefile='' @ dnsmasqLeaseFile @ newline @
     newline"

definition generateConfig :: "Config \<Rightarrow> string" where
  "generateConfig cfg = dnsmasq_header @ concat (map dhcp_block (Bridges cfg))"

text \<open>\<^verbatim>\<open>DNSMasqManager.stop\<close>: a unit that is not loaded or not found counts as stopped.\<close>

definition dnsmasq_stop :: "os_env \<Rightarrow> world \<Rightarrow> app_error option \<times> world" where
  "dnsmasq_stop E w =
     (case exec_CombinedOutput E [''systemctl'', ''stop'', dnsmasqUnit] w of
        ((out, False), w1) \<Rightarrow>
          if strings_Contains out ''not loaded'' \<or> strings_Contains out ''not found''
          then (None, w1)
          else (Some (StopDnsmasq out), w1)
      | ((out, True), w1) \<Rightarrow> (None, w1))"

text \<open>\<^verbatim>\<open>DNSMasqManager.Apply\<close>.\<close>

definition dnsmasq_Apply :: "os_env \<Rightarrow> Config \<Rightarrow> world \<Rightarrow> app_error option \<times> world" where
  "dnsmasq_Apply E cfg w =
     (let hasDHCP = list_ex (\<lambda>b. DHCP b \<noteq> None) (Bridges cfg)
      in if \<not> hasDHCP then dnsmasq_stop E w
         else
           (case os_WriteFile E dnsmasqConfigPath (generateConfig cfg) w of
              (False, w1) \<Rightarrow> (Some WriteDnsmasqConfig, w1)
            | (True, w1) \<Rightarrow>
                (case exec_CombinedOutput E [''systemctl'', ''restart'', dnsmasqUnit] w1 of
                   ((out, False), w2) \<Rightarrow> (Some (RestartDnsmasq out), w2)
                 | ((out, True), w2) \<Rightarrow>
                     (None, emit (EvLog ''dnsmasq config applied and service restarted'' None) w2))))"

section \<open>Persistence\<close>

text \<open>
  \<^verbatim>\<open>Config.Save\<close>. The serializer \<^verbatim>\<open>json.MarshalIndent\<close> is the parameter \<open>M\<close>
  (\<open>None\<close> for an error).
\<close>

definition Save :: "os_env \<Rightarrow> (Config \<Rightarrow> string option) \<Rightarrow> Config \<Rightarrow> world \<Rightarrow> app_error option \<times> world" where
  "Save E M c w =
     (case M c of
        None \<Rightarrow> (Some MarshalConfig, w)
      | Some data \<Rightarrow>
          (let tmp = cfg_path c @ ''.tmp''
           in case os_WriteFile E tmp data w of
                (False, w1) \<Rightarrow> (Some WriteTempConfig, w1)
              | (True, w1) \<Rightarrow>
                  (case os_Rename E tmp (cfg_path c) w1 of
                     (False, w2) \<Rightarrow> (Some RenameConfig, os_Remove tmp w2)
                   | (True, w2) \<Rightarrow> (None, w2))))"

section \<open>Lookup and removal in the model\<close>

text \<open>
  The source returns pointers into the bridge and forward slices; the model returns the
  index of the element, and a write through the pointer is a list update at that index.
\<close>

fun find_idx :: "('a \<Rightarrow> bool) \<Rightarrow> 'a list \<Rightarrow> nat option" where
  "find_idx P [] = None"
| "find_idx P (x # xs) = (if P x then Some 0 else map_option Suc (find_idx P xs))"

definition FindBridge :: "Config \<Rightarrow> string \<Rightarrow> nat option" where
  "FindBridge c name = find_idx (\<lambda>b. Name b = name) (Bridges c)"

text \<open>\<^verbatim>\<open>FindForward\<close>: the first bridge holding a forward with the ID, and the first such forward in it.\<close>

definition FindForward :: "Config \<Rightarrow> string \<Rightarrow> (nat \<times> nat) option" where
  "FindForward c fid =
     (case find_idx (\<lambda>b. list_ex (\<lambda>f. ID f = fid) (Forwards b)) (Bridges c) of
        None \<Rightarrow> None
      | Some i \<Rightarrow>
          (case find_idx (\<lambda>f. ID f = fid) (Forwards (Bridges c ! i)) of
             None \<Rightarrow> None
           | Some j \<Rightarrow> Some (i, j)))"

definition DeleteForward :: "Config \<Rightarrow> string \<Rightarrow> bool \<times> Config" where
  "DeleteForward c fid =
     (case FindForward c fid of
        None \<Rightarrow> (False, c)
      | Some (i, j) \<Rightarrow>
          (let b = Bridges c ! i;
               fs = take j (Forwards b) @ drop (Suc j) (Forwards b)
           in (True, c\<lparr>Bridges := (Bridges c)[i := b\<lparr>Forwards := fs\<rparr>]\<rparr>)))"

definition DeleteBridge :: "Config \<Rightarrow> string \<Rightarrow> bool \<times> Config" where
  "DeleteBridge c name =
     (case find_idx (\<lambda>b. Name b = name) (Bridges c) of
        None \<Rightarrow> (False, c)
      | Some i \<Rightarrow> (True, c\<lparr>Bridges := take i (Bridges c) @ drop (Suc i) (Bridges c)\<rparr>))"

section \<open>The mutation handlers (HTTP)\<close>

text \<open>
  What a handler depends on besides the model and the host: the library functions that
  are parameters of the model (the parsers, the quoting, the serializer,
  \<^verbatim>\<open>strings.TrimSpace\<close> and the match of the interface-name regular expression), and the
  answers of the Proxmox API: the network list or an error text, and for the two
  requests that change the node \<open>None\<close> or an error text.
\<close>

record ProxmoxNetwork =
  pn_Iface :: string
  pn_Type :: string
  pn_CIDR :: string
  pn_Address :: string
  pn_Netmask :: string
  pn_Method :: string
  pn_BridgePorts :: string
  pn_BridgeFD :: string
  pn_BridgeSTP :: string
  pn_Autostart :: int

record deps =
  env :: os_env
  net :: netlib
  Quote :: "string \<Rightarrow> string"
  Marshal :: "Config \<Rightarrow> string option"
  TrimSpace :: "string \<Rightarrow> string"
  ifaceNameRe :: "string \<Rightarrow> bool"
  px_ListNetworks :: "string + ProxmoxNetwork list"
  px_CreateBridge :: "string \<Rightarrow> string \<Rightarrow> string \<Rightarrow> string option"
  px_ReloadNetwork :: "string option"

datatype response = HttpError string nat | Redirect string nat

type_synonym form = "string \<Rightarrow> string"

text \<open>
  The three statements every handler repeats: call the function, log an error, go on.
  The call itself is recorded in the trace, so that the order of the calls can be read
  off it.
\<close>

definition save_logged :: "deps \<Rightarrow> Config \<Rightarrow> world \<Rightarrow> world" where
  "save_logged D c w =
     (case Save (env D) (Marshal D) c (emit (EvCall ''cfg.Save'' c) w) of
        (Some err, w') \<Rightarrow> emit (EvLog ''ERROR: save config'' (Some err)) w'
      | (None, w') \<Rightarrow> w')"

definition nft_logged :: "deps \<Rightarrow> Config \<Rightarrow> world \<Rightarrow> world" where
  "nft_logged D c w =
     (case nft_Apply (env D) (Quote D) c (emit (EvCall ''nft.Apply'' c) w) of
        (Some err, w') \<Rightarrow> emit (EvLog ''ERROR: apply nftables'' (Some err)) w'
      | (None, w') \<Rightarrow> w')"

definition dnsmasq_logged :: "deps \<Rightarrow> Config \<Rightarrow> world \<Rightarrow> world" where
  "dnsmasq_logged D c w =
     (case dnsmasq_Apply (env D) c (emit (EvCall ''dnsmasq.Apply'' c) w) of
        (Some err, w') \<Rightarrow> emit (EvLog ''ERROR: apply dnsmasq'' (Some err)) w'
      | (None, w') \<Rightarrow> w')"

text \<open>\<^verbatim>\<open>strconv.ParseUint(s, 10, 16)\<close>: decimal digits only, at most 65535.\<close>

definition ParseUint16 :: "string \<Rightarrow> 16 word option" where
  "ParseUint16 s =
     (case parse_dec s of
        None \<Rightarrow> None
      | Some n \<Rightarrow> if n \<le> 65535 then Some (of_nat n) else None)"

definition HandleNATToggle :: "deps \<Rightarrow> form \<Rightarrow> Config \<Rightarrow> world \<Rightarrow> response \<times> Config \<times> world" where
  "HandleNATToggle D frm cfg w =
     (let bridgeName = frm ''bridge'';
          w0 = emit EvLock w
      in case FindBridge cfg bridgeName of
           None \<Rightarrow> (HttpError ''Bridge not found'' 400, cfg, emit EvUnlock w0)
         | Some i \<Rightarrow>
             (let br = Bridges cfg ! i;
                  cfg' = cfg\<lparr>Bridges := (Bridges cfg)[i := br\<lparr>NATEnabled := \<not> NATEnabled br\<rparr>]\<rparr>;
                  w1 = save_logged D cfg' w0;
                  w2 = nft_logged D cfg' w1
              in (Redirect ''/'' 303, cfg', emit EvUnlock w2)))"

text \<open>The duplicate check of \<^verbatim>\<open>HandleForwardCreate\<close>: the two nested loops.\<close>

definition port_in_use :: "Config \<Rightarrow> 16 word \<Rightarrow> string \<Rightarrow> bool" where
  "port_in_use cfg extPort protocol =
     list_ex (\<lambda>b. list_ex (\<lambda>f. ExtPort f = extPort \<and> Enabled f \<and>
                                 (Protocol f = protocol \<or> Protocol f = ''tcp+udp'' \<or>
                                  protocol = ''tcp+udp''))
                      (Forwards b))
       (Bridges cfg)"

text \<open>\<^verbatim>\<open>HandleForwardCreate\<close>; \<open>newID\<close> is what \<^verbatim>\<open>generateID()\<close> returns.\<close>

definition HandleForwardCreate ::
  "deps \<Rightarrow> string \<Rightarrow> form \<Rightarrow> Config \<Rightarrow> world \<Rightarrow> response \<times> Config \<times> world" where
  "HandleForwardCreate D newID frm cfg w =
     (let bridgeName = frm ''bridge'';
          protocol = frm ''protocol'';
          intIP = frm ''int_ip'';
          comment = frm ''comment''
      in case ParseUint16 (frm ''ext_port'') of
           None \<Rightarrow> (HttpError ''Invalid external port'' 400, cfg, w)
         | Some extPort \<Rightarrow>
      if extPort = 0 then (HttpError ''Invalid external port'' 400, cfg, w)
      else case ParseUint16 (frm ''int_port'') of
           None \<Rightarrow> (HttpError ''Invalid internal port'' 400, cfg, w)
         | Some intPort \<Rightarrow>
      if intPort = 0 then (HttpError ''Invalid internal port'' 400, cfg, w)
      else if ParseIP (net D) intIP = None then (HttpError ''Invalid internal IP'' 400, cfg, w)
      else if protocol \<noteq> ''tcp'' \<and> protocol \<noteq> ''udp'' \<and> protocol \<noteq> ''tcp+udp''
        then (HttpError ''Invalid protocol'' 400, cfg, w)
      else case parseIPv4 (net D) intIP of
           None \<Rightarrow> (HttpError ''Invalid internal IP (IPv4 required)'' 400, cfg, w)
         | Some intIPv4 \<Rightarrow>
      (let w0 = emit EvLock w
       in case FindBridge cfg bridgeName of
            None \<Rightarrow> (HttpError ''Bridge not found'' 400, cfg, emit EvUnlock w0)
          | Some i \<Rightarrow>
       (let br = Bridges cfg ! i
        in case parseCIDRv4 (net D) (Subnet br) of
             None \<Rightarrow> (HttpError ''Bridge subnet invalid'' 400, cfg, emit EvUnlock w0)
           | Some ipnet \<Rightarrow>
        if \<not> ipInNet intIPv4 ipnet
          then (HttpError ''Internal IP not in bridge subnet'' 400, cfg, emit EvUnlock w0)
        else if port_in_use cfg extPort protocol
          then (HttpError (''External port '' @ Itoa (unat extPort) @ '' already in use'') 400,
                cfg, emit EvUnlock w0)
        else
          (let f = \<lparr>ID = newID, Protocol = protocol, ExtPort = extPort, IntIP = intIP,
                    IntPort = intPort, Comment = comment, Enabled = True\<rparr>;
               cfg' = cfg\<lparr>Bridges := (Bridges cfg)[i := br\<lparr>Forwards := Forwards br @ [f]\<rparr>]\<rparr>;
               w1 = save_logged D cfg' w0;
               w2 = nft_logged D cfg' w1
           in (Redirect ''/forwards'' 303, cfg', emit EvUnlock w2)))))"

definition HandleForwardDelete :: "deps \<Rightarrow> form \<Rightarrow> Config \<Rightarrow> world \<Rightarrow> response \<times> Config \<times> world" where
  "HandleForwardDelete D frm cfg w =
     (let fid = frm ''id'';
          w0 = emit EvLock w
      in case DeleteForward cfg fid of
           (False, c) \<Rightarrow> (HttpError ''Forward not found'' 400, c, emit EvUnlock w0)
         | (True, cfg') \<Rightarrow>
             (let w1 = save_logged D cfg' w0;
                  w2 = nft_logged D cfg' w1
              in (Redirect ''/forwards'' 303, cfg', emit EvUnlock w2)))"

definition HandleForwardToggle :: "deps \<Rightarrow> form \<Rightarrow> Config \<Rightarrow> world \<Rightarrow> response \<times> Config \<times> world" where
  "HandleForwardToggle D frm cfg w =
     (let fid = frm ''id'';
          w0 = emit EvLock w
      in case FindForward cfg fid of
           None \<Rightarrow> (HttpError ''Forward not found'' 400, cfg, emit EvUnlock w0)
         | Some (i, j) \<Rightarrow>
             (let br = Bridges cfg ! i;
                  fwd = Forwards br ! j;
                  fs = (Forwards br)[j := fwd\<lparr>Enabled := \<not> Enabled fwd\<rparr>];
                  cfg' = cfg\<lparr>Bridges := (Bridges cfg)[i := br\<lparr>Forwards := fs\<rparr>]\<rparr>;
                  w1 = save_logged D cfg' w0;
                  w2 = nft_logged D cfg' w1
              in (Redirect ''/forwards'' 303, cfg', emit EvUnlock w2)))"

definition HandleBridgeDetach :: "deps \<Rightarrow> form \<Rightarrow> Config \<Rightarrow> world \<Rightarrow> response \<times> Config \<times> world" where
  "HandleBridgeDetach D frm cfg w =
     (let name = TrimSpace D (frm ''name'')
      in if name = [] then (HttpError ''Bridge name is required'' 400, cfg, w)
         else
           (let w0 = emit EvLock w
            in case DeleteBridge cfg name of
                 (False, c) \<Rightarrow> (HttpError ''Bridge not managed by PNAT'' 400, c, emit EvUnlock w0)
               | (True, cfg') \<Rightarrow>
                   (let w1 = save_logged D cfg' w0;
                        w2 = nft_logged D cfg' w1;
                        w3 = dnsmasq_logged D cfg' w2
                    in (Redirect ''/'' 303, cfg', emit EvUnlock w3))))"





subsection \<open>Bridges: helpers of netutil and the Proxmox client\<close>



















section \<open>The console's apply\<close>

text \<open>
  \<^verbatim>\<open>TUIMode.apply\<close>: under the lock, Save, then the NAT reconciler, then the DHCP
  reconciler, returning at the first error.
\<close>

definition tui_apply :: "deps \<Rightarrow> Config \<Rightarrow> world \<Rightarrow> app_error option \<times> world" where
  "tui_apply D cfg w =
     (let w0 = emit EvLock w
      in case Save (env D) (Marshal D) cfg (emit (EvCall ''cfg.Save'' cfg) w0) of
           (Some err, w1) \<Rightarrow> (Some err, emit EvUnlock w1)
         | (None, w1) \<Rightarrow>
             (case nft_Apply (env D) (Quote D) cfg (emit (EvCall ''nft.Apply'' cfg) w1) of
                (Some err, w2) \<Rightarrow> (Some err, emit EvUnlock w2)
              | (None, w2) \<Rightarrow>
                  (case dnsmasq_Apply (env D) cfg (emit (EvCall ''dnsmasq.Apply'' cfg) w2) of
                     (r, w3) \<Rightarrow> (r, emit EvUnlock w3))))"

subsection \<open>The handlers of the console\<close>






section \<open>The IP usage view\<close>




record UsedIP =
  u_IP :: string
  u_Source :: string
  u_VMID :: int
  u_VMName :: string
  u_MAC :: string

record BridgeUsedIPs =
  bu_Bridge :: string
  bu_Subnet :: string
  bu_IPs :: "UsedIP list"








section \<open>Auxiliary definitions and sample data\<close>

text \<open>The world after the IP-forwarding step of \<^verbatim>\<open>Apply\<close>, named for the proofs.\<close>

definition after_ipforward :: "os_env \<Rightarrow> bool \<Rightarrow> world \<Rightarrow> world" where
  "after_ipforward E hasNAT w =
     (if hasNAT
      then (case enableIPForward E w of
              (Some err, w') \<Rightarrow> emit (EvLog ''WARN: failed to enable ip_forward'' (Some err)) w'
            | (None, w') \<Rightarrow> w')
      else w)"

text \<open>
  The calls in a stretch of the trace: taking and releasing the lock, and the calls of
  \<^verbatim>\<open>Save\<close> and of the two reconcilers with the model they were given.
\<close>

fun is_call :: "event \<Rightarrow> bool" where
  "is_call EvLock = True"
| "is_call EvUnlock = True"
| "is_call (EvCall n c) = True"
| "is_call ev = False"

definition calls :: "world \<Rightarrow> world \<Rightarrow> event list" where
  "calls w w' = filter is_call (new_events w w')"

text \<open>For the proofs: the trace of \<open>w'\<close> extends that of \<open>w\<close>, and the calls added are \<open>cs\<close>.\<close>

definition ext :: "world \<Rightarrow> world \<Rightarrow> event list \<Rightarrow> bool" where
  "ext w w' cs \<longleftrightarrow> (\<exists>evs. trace w' = trace w @ evs \<and> filter is_call evs = cs)"

fun is_redirect :: "response \<Rightarrow> bool" where
  "is_redirect (Redirect loc code) = True"
| "is_redirect (HttpError msg code) = False"

text \<open>A host on which every write, rename and command succeeds.\<close>

definition env_ok :: os_env where
  "env_ok = \<lparr>WriteFile_outcome = (\<lambda>p data. Written), Rename_ok = (\<lambda>old new. True),
             Exec_result = (\<lambda>args. ([], True))\<rparr>"

text \<open>A host on which the firewall table does not exist, so deleting it fails.\<close>

definition env_no_table :: os_env where
  "env_no_table =
     \<lparr>WriteFile_outcome = (\<lambda>p data. Written), Rename_ok = (\<lambda>old new. True),
      Exec_result = (\<lambda>args. if args = [nftBinary, ''delete'', ''table'', ''ip'', ''pnat'']
                             then (''Error: Could not process rule: No such file or directory'', False)
                             else ([], True))\<rparr>"

text \<open>A host on which no rename succeeds and a failed write leaves a truncated file.\<close>

definition env_no_rename :: os_env where
  "env_no_rename =
     \<lparr>WriteFile_outcome = (\<lambda>p data. Written), Rename_ok = (\<lambda>old new. False),
      Exec_result = (\<lambda>args. ([], True))\<rparr>"

definition world0 :: world where
  "world0 = \<lparr>files = Map.empty, trace = []\<rparr>"

definition sample_forward :: PortForward where
  "sample_forward =
     \<lparr>ID = ''abc123'', Protocol = ''tcp'', ExtPort = 2222, IntIP = ''10.10.10.101'',
      IntPort = 22, Comment = ''ssh'', Enabled = True\<rparr>"

definition sample_dns_forward :: PortForward where
  "sample_dns_forward =
     \<lparr>ID = ''def456'', Protocol = ''tcp+udp'', ExtPort = 53, IntIP = ''10.10.10.53'',
      IntPort = 53, Comment = [], Enabled = True\<rparr>"

definition sample_pool :: DHCPConfig where
  "sample_pool =
     \<lparr>RangeStart = ''10.10.10.100'', RangeEnd = ''10.10.10.200'', LeaseTime = ''12h'',
      DNS1 = ''1.1.1.1'', DNS2 = ''8.8.8.8''\<rparr>"

definition sample_bridge :: BridgeConfig where
  "sample_bridge =
     \<lparr>Name = ''vmbr1'', Subnet = ''10.10.10.0/24'', GatewayIP = ''10.10.10.1'',
      NATEnabled = True, DHCP = Some sample_pool, Forwards = [sample_forward]\<rparr>"

definition sample_cfg :: "BridgeConfig list \<Rightarrow> Config" where
  "sample_cfg bs =
     \<lparr>ListenAddr = ''127.0.0.1:9090'', AuthMode = ''pam'', AuthPamService = ''pnat'',
      AuthAllowUsers = [], AdminUser = [], AdminPassHash = [], SessionSecret = ''secret'',
      ProxmoxURL = ''https://127.0.0.1:8006'', ProxmoxTokenID = ''root@pam!pnat'',
      ProxmoxSecret = ''token'', ProxmoxNode = ''pve'',
      WanInterface = ''vmbr0'', Bridges = bs, cfg_path = ''/etc/pnat/pnat.json''\<rparr>"

text \<open>A stand-in serializer for running \<open>Save\<close>: it writes the bridge names only.\<close>

definition sample_marshal :: "Config \<Rightarrow> string option" where
  "sample_marshal c = Some (concat (map (\<lambda>b. Name b @ newline) (Bridges c)))"

definition quiet_bridge :: BridgeConfig where
  "quiet_bridge = sample_bridge\<lparr>NATEnabled := False, DHCP := None,
                                 Forwards := [sample_forward\<lparr>Enabled := False\<rparr>]\<rparr>"


text \<open>Stand-ins for the two library parameters that work on ASCII text.\<close>

definition is_space :: "char \<Rightarrow> bool" where
  "is_space c = (let v = (of_char c :: nat) in v = 32 \<or> (9 \<le> v \<and> v \<le> 13))"

definition ascii_TrimSpace :: "string \<Rightarrow> string" where
  "ascii_TrimSpace s = rev (dropWhile is_space (rev (dropWhile is_space s)))"

definition is_word_char :: "char \<Rightarrow> bool" where
  "is_word_char c =
     (let v = (of_char c :: nat)
      in (97 \<le> v \<and> v \<le> 122) \<or> (65 \<le> v \<and> v \<le> 90) \<or> (48 \<le> v \<and> v \<le> 57) \<or> v = 95)"

definition is_letter :: "char \<Rightarrow> bool" where
  "is_letter c =
     (let v = (of_char c :: nat) in (97 \<le> v \<and> v \<le> 122) \<or> (65 \<le> v \<and> v \<le> 90))"

definition ascii_ifaceNameRe :: "string \<Rightarrow> bool" where
  "ascii_ifaceNameRe s =
     (case s of
        [] \<Rightarrow> False
      | c # rest \<Rightarrow>
          is_letter c \<and>
          (let body = takeWhile is_word_char rest; suf = dropWhile is_word_char rest
           in 1 \<le> length body \<and> length body \<le> 20 \<and>
              (suf = [] \<or>
               ((hd suf = CHR '':'' \<or> hd suf = CHR ''.'') \<and> tl suf \<noteq> [] \<and>
                list_all (\<lambda>d. digit_val d \<noteq> None) (tl suf)))))"

definition sample_deps :: "os_env \<Rightarrow> deps" where
  "sample_deps E =
     \<lparr>env = E, net = go_net, Quote = go_Quote, Marshal = sample_marshal,
      TrimSpace = ascii_TrimSpace, ifaceNameRe = ascii_ifaceNameRe,
      px_ListNetworks = Inr [], px_CreateBridge = (\<lambda>iface cidr ports. None),
      px_ReloadNetwork = None\<rparr>"

text \<open>A request form from its fields; a field that is not there reads as the empty string.\<close>

definition form_of :: "(string \<times> string) list \<Rightarrow> form" where
  "form_of kvs k = (case map_of kvs k of None \<Rightarrow> [] | Some v \<Rightarrow> v)"


section \<open>When a request is accepted\<close>










text \<open>
  What \<^verbatim>\<open>apply\<close> has to return and to call on the model \<open>cfg\<close> in the world \<open>w\<close>, from
  the results of \<^verbatim>\<open>Save\<close> and of the NAT reconciler in the worlds in which they are
  called: it stops at the first of them that fails.
\<close>

definition apply_outcome :: "deps \<Rightarrow> Config \<Rightarrow> world \<Rightarrow> app_error option \<times> event list" where
  "apply_outcome D cfg w =
     (case Save (env D) (Marshal D) cfg (emit (EvCall ''cfg.Save'' cfg) (emit EvLock w)) of
        (Some err, w1) \<Rightarrow> (Some err, [EvLock, EvCall ''cfg.Save'' cfg, EvUnlock])
      | (None, w1) \<Rightarrow>
          (case nft_Apply (env D) (Quote D) cfg (emit (EvCall ''nft.Apply'' cfg) w1) of
             (Some err, w2) \<Rightarrow>
               (Some err, [EvLock, EvCall ''cfg.Save'' cfg, EvCall ''nft.Apply'' cfg, EvUnlock])
           | (None, w2) \<Rightarrow>
               (fst (dnsmasq_Apply (env D) cfg (emit (EvCall ''dnsmasq.Apply'' cfg) w2)),
                [EvLock, EvCall ''cfg.Save'' cfg, EvCall ''nft.Apply'' cfg,
                 EvCall ''dnsmasq.Apply'' cfg, EvUnlock])))"

section \<open>The port invariant of the specification\<close>

text \<open>
  The protocols a forward stands for: the expansion the NAT compiler applies. Two
  forwards conflict when both are enabled, share the external port and stand for a
  common protocol. A list of forwards is conflict-free when no two of its members
  conflict.
\<close>

definition protocols_of :: "string \<Rightarrow> string list" where
  "protocols_of p = (if p = ''tcp+udp'' then [''tcp'', ''udp''] else [p])"

definition forwards_conflict :: "PortForward \<Rightarrow> PortForward \<Rightarrow> bool" where
  "forwards_conflict f g =
     (Enabled f \<and> Enabled g \<and> ExtPort f = ExtPort g \<and>
      list_ex (\<lambda>p. p \<in> set (protocols_of (Protocol g))) (protocols_of (Protocol f)))"

fun conflict_free :: "PortForward list \<Rightarrow> bool" where
  "conflict_free [] = True"
| "conflict_free (f # fs) = (list_all (\<lambda>g. \<not> forwards_conflict f g) fs \<and> conflict_free fs)"

definition all_forwards :: "Config \<Rightarrow> PortForward list" where
  "all_forwards cfg = concat (map Forwards (Bridges cfg))"

text \<open>
  Four requests in a row, starting from a bridge without forwards: create a forward
  for tcp port 80, switch it off, create a second forward for tcp port 80, switch the
  first one on again.
\<close>

definition web_form :: form where
  "web_form = form_of [(''bridge'', ''vmbr1''), (''protocol'', ''tcp''), (''ext_port'', ''80''),
                       (''int_ip'', ''10.10.10.5''), (''int_port'', ''8080''),
                       (''comment'', ''web'')]"

definition dup_cfg0 :: Config where
  "dup_cfg0 = sample_cfg [sample_bridge\<lparr>Forwards := []\<rparr>]"

definition dup_cfg1 :: Config where
  "dup_cfg1 = fst (snd (HandleForwardCreate (sample_deps env_ok) ''id1'' web_form dup_cfg0 world0))"

definition dup_cfg2 :: Config where
  "dup_cfg2 = fst (snd (HandleForwardToggle (sample_deps env_ok) (form_of [(''id'', ''id1'')])
                          dup_cfg1 world0))"

definition dup_cfg3 :: Config where
  "dup_cfg3 = fst (snd (HandleForwardCreate (sample_deps env_ok) ''id2'' web_form dup_cfg2 world0))"

definition dup_cfg4 :: Config where
  "dup_cfg4 = fst (snd (HandleForwardToggle (sample_deps env_ok) (form_of [(''id'', ''id1'')])
                          dup_cfg3 world0))"

text \<open>The two forwards these requests create, and the form of the NAT toggle request.\<close>

definition web1 :: PortForward where
  "web1 = \<lparr>ID = ''id1'', Protocol = ''tcp'', ExtPort = 80, IntIP = ''10.10.10.5'',
           IntPort = 8080, Comment = ''web'', Enabled = True\<rparr>"

definition web2 :: PortForward where
  "web2 = web1\<lparr>ID := ''id2''\<rparr>"




definition twice_w1 :: world where
  "twice_w1 = snd (nft_Apply env_ok go_Quote (sample_cfg [sample_bridge]) world0)"

definition twice_w2 :: world where
  "twice_w2 = snd (dnsmasq_Apply env_ok (sample_cfg [sample_bridge]) twice_w1)"

definition twice_w3 :: world where
  "twice_w3 = snd (nft_Apply env_no_table go_Quote (sample_cfg [sample_bridge]) twice_w2)"

definition twice_w4 :: world where
  "twice_w4 = snd (dnsmasq_Apply env_no_table (sample_cfg [sample_bridge]) twice_w3)"

section \<open>What the IP usage view has to contain\<close>



definition extend_entry :: "UsedIP list \<Rightarrow> BridgeUsedIPs option \<Rightarrow> BridgeUsedIPs option" where
  "extend_entry xs eo = map_option (\<lambda>e. e\<lparr>bu_IPs := bu_IPs e @ xs\<rparr>) eo"










section \<open>Properties of the validator\<close>

lemma bit_byte_lt: "bit (b :: byte) n \<Longrightarrow> n < 8"
  using bit_imp_le_length [of b n] by simp

lemma uint_BigEndian_concat:
  "uint (BigEndian_Uint32 b0 b1 b2 b3) =
     concat_bit 8 (uint b3) (concat_bit 8 (uint b2) (concat_bit 8 (uint b1) (uint b0)))"
  unfolding BigEndian_Uint32_def
  apply (rule bit_eqI)
  apply (simp add: bit_simps)
  apply (auto dest: bit_byte_lt)
  done

lemma byte_mod: "uint (b :: byte) mod 256 = uint b"
  using uint_idem [of b] by simp

lemma take_bit_byte: "take_bit 8 (uint (b :: byte)) = uint b"
  by (simp add: take_bit_eq_mod byte_mod)

lemma uint_BigEndian:
  "uint (BigEndian_Uint32 b0 b1 b2 b3) =
     uint b0 * 2 ^ 24 + uint b1 * 2 ^ 16 + uint b2 * 2 ^ 8 + uint b3"
  by (simp add: uint_BigEndian_concat concat_bit_eq take_bit_byte push_bit_eq_mult)

lemma unat_BigEndian:
  "unat (BigEndian_Uint32 b0 b1 b2 b3) =
     unat b0 * 2 ^ 24 + unat b1 * 2 ^ 16 + unat b2 * 2 ^ 8 + unat b3"
proof -
  have "int (unat (BigEndian_Uint32 b0 b1 b2 b3)) =
        int (unat b0 * 2 ^ 24 + unat b1 * 2 ^ 16 + unat b2 * 2 ^ 8 + unat b3)"
    by (simp only: of_nat_add of_nat_mult of_nat_power of_nat_numeral of_nat_unat
        uint_BigEndian)
  then show ?thesis by (simp only: of_nat_eq_iff)
qed

lemma unat_ipToUint32: "unat (ipToUint32 ip) = addr_value ip"
  by (cases ip) (simp only: ipToUint32.simps addr_value.simps unat_BigEndian)

lemma ipLessOrEqual_iff: "ipLessOrEqual a b \<longleftrightarrow> addr_value a \<le> addr_value b"
  by (simp only: ipLessOrEqual_def word_le_nat_alt unat_ipToUint32)


text \<open>
  C1. When the subnet text parses as an IPv4 CIDR and the gateway, start and end texts
  parse as IPv4 addresses, \<^verbatim>\<open>validateDHCPRange\<close> returns nil exactly when start is at
  most end as unsigned 32-bit numbers, start and end both lie in the subnet, and the
  gateway does not lie in the closed interval from start to end.
\<close>

theorem validateDHCPRange_success_iff:
  assumes "parseCIDRv4 L subnet = Some ipnet"
    and "parseIPv4 L gateway = Some gw"
    and "parseIPv4 L start = Some s"
    and "parseIPv4 L endT = Some e"
  shows "validateDHCPRange L subnet gateway start endT = None \<longleftrightarrow>
         addr_value s \<le> addr_value e \<and> ipInNet s ipnet \<and> ipInNet e ipnet \<and>
         \<not> (addr_value s \<le> addr_value gw \<and> addr_value gw \<le> addr_value e)"
  using assms by (auto simp add: validateDHCPRange_def ipLessOrEqual_iff)

theorem validateDHCPRange_success_iff_witness:
  "validateDHCPRange go_net ''10.10.10.0/24'' ''10.10.10.1'' ''10.10.10.100'' ''10.10.10.200''
     = None \<and>
   validateDHCPRange go_net ''10.10.10.0/24'' ''10.10.10.150'' ''10.10.10.100'' ''10.10.10.200''
     \<noteq> None"
proof -
  let ?n = "\<lparr>net_IP = Addr4 (IPv4 10 10 10 0), net_Mask = [255, 255, 255, 0]\<rparr>"
  have n: "parseCIDRv4 go_net ''10.10.10.0/24'' = Some ?n"
    by code_simp
  have g: "parseIPv4 go_net ''10.10.10.1'' = Some (IPv4 10 10 10 1)"
    by code_simp
  have g': "parseIPv4 go_net ''10.10.10.150'' = Some (IPv4 10 10 10 150)"
    by code_simp
  have s: "parseIPv4 go_net ''10.10.10.100'' = Some (IPv4 10 10 10 100)"
    by code_simp
  have e: "parseIPv4 go_net ''10.10.10.200'' = Some (IPv4 10 10 10 200)"
    by code_simp
  have inside: "ipInNet (IPv4 10 10 10 100) ?n" "ipInNet (IPv4 10 10 10 200) ?n"
    by code_simp+
  have ok: "validateDHCPRange go_net ''10.10.10.0/24'' ''10.10.10.1'' ''10.10.10.100''
              ''10.10.10.200'' = None"
    unfolding validateDHCPRange_success_iff [OF n g s e] using inside by simp
  have bad: "validateDHCPRange go_net ''10.10.10.0/24'' ''10.10.10.150'' ''10.10.10.100''
              ''10.10.10.200'' \<noteq> None"
    unfolding validateDHCPRange_success_iff [OF n g' s e] by simp
  from ok bad show ?thesis by simp
qed

text \<open>
  C3 (as amended). The checks run in a fixed order and the first failure is the result:
  subnet invalid, then start invalid, then end invalid, then range outside the subnet,
  then range inverted, then range includes the gateway. An unparsable start or end is
  reported before any range check. The gateway text is parsed last, and an unparsable
  gateway is no error: the gateway check is skipped.
\<close>

theorem validateDHCPRange_check_order:
  "(validateDHCPRange L subnet gateway start endT = Some BridgeSubnetInvalid \<longleftrightarrow>
      parseCIDRv4 L subnet = None) \<and>
   (validateDHCPRange L subnet gateway start endT = Some InvalidRangeStartIP \<longleftrightarrow>
      parseCIDRv4 L subnet \<noteq> None \<and> parseIPv4 L start = None) \<and>
   (validateDHCPRange L subnet gateway start endT = Some InvalidRangeEndIP \<longleftrightarrow>
      parseCIDRv4 L subnet \<noteq> None \<and> parseIPv4 L start \<noteq> None \<and> parseIPv4 L endT = None) \<and>
   (\<forall>ipnet s e.
      parseCIDRv4 L subnet = Some ipnet \<and> parseIPv4 L start = Some s \<and>
      parseIPv4 L endT = Some e \<longrightarrow>
      (validateDHCPRange L subnet gateway start endT = Some RangeOutsideSubnet \<longleftrightarrow>
         \<not> (ipInNet s ipnet \<and> ipInNet e ipnet)) \<and>
      (validateDHCPRange L subnet gateway start endT = Some RangeInverted \<longleftrightarrow>
         ipInNet s ipnet \<and> ipInNet e ipnet \<and> \<not> addr_value s \<le> addr_value e) \<and>
      (validateDHCPRange L subnet gateway start endT = Some RangeIncludesGateway \<longleftrightarrow>
         ipInNet s ipnet \<and> ipInNet e ipnet \<and> addr_value s \<le> addr_value e \<and>
         (\<exists>gw. parseIPv4 L gateway = Some gw \<and>
               addr_value s \<le> addr_value gw \<and> addr_value gw \<le> addr_value e)) \<and>
      (validateDHCPRange L subnet gateway start endT = None \<longleftrightarrow>
         ipInNet s ipnet \<and> ipInNet e ipnet \<and> addr_value s \<le> addr_value e \<and>
         (parseIPv4 L gateway = None \<or>
          (\<exists>gw. parseIPv4 L gateway = Some gw \<and>
                \<not> (addr_value s \<le> addr_value gw \<and> addr_value gw \<le> addr_value e)))))"
  by (auto simp add: validateDHCPRange_def ipLessOrEqual_iff split: option.splits)

theorem validateDHCPRange_check_order_witness:
  "validateDHCPRange go_net ''192.168.7.0/24'' ''192.168.7.50'' ''192.168.7.10''
     ''192.168.7.99'' = Some RangeIncludesGateway \<and>
   validateDHCPRange go_net ''192.168.7.0/24'' ''192.168.7.50'' ''192.168.7.x''
     ''192.168.8.99'' = Some InvalidRangeStartIP"
proof -
  let ?n = "\<lparr>net_IP = Addr4 (IPv4 192 168 7 0), net_Mask = [255, 255, 255, 0]\<rparr>"
  have n: "parseCIDRv4 go_net ''192.168.7.0/24'' = Some ?n"
    by code_simp
  have g: "parseIPv4 go_net ''192.168.7.50'' = Some (IPv4 192 168 7 50)"
    by code_simp
  have s: "parseIPv4 go_net ''192.168.7.10'' = Some (IPv4 192 168 7 10)"
    by code_simp
  have e: "parseIPv4 go_net ''192.168.7.99'' = Some (IPv4 192 168 7 99)"
    by code_simp
  have x: "parseIPv4 go_net ''192.168.7.x'' = None"
    by code_simp
  have inside: "ipInNet (IPv4 192 168 7 10) ?n" "ipInNet (IPv4 192 168 7 99) ?n"
    by code_simp+
  note order = validateDHCPRange_check_order [of go_net "''192.168.7.0/24''" "''192.168.7.50''"]
  have "validateDHCPRange go_net ''192.168.7.0/24'' ''192.168.7.50'' ''192.168.7.10''
          ''192.168.7.99'' = Some RangeIncludesGateway"
    using order [of "''192.168.7.10''" "''192.168.7.99''"] n g s e inside by simp
  moreover have "validateDHCPRange go_net ''192.168.7.0/24'' ''192.168.7.50'' ''192.168.7.x''
          ''192.168.8.99'' = Some InvalidRangeStartIP"
    using order [of "''192.168.7.x''" "''192.168.8.99''"] n x by simp
  ultimately show ?thesis by simp
qed

text \<open>
  C3 as stated fails: with a gateway text that is no IPv4 address and a good range the
  function returns nil, not an address error.
\<close>

theorem validateDHCPRange_bad_gateway_counterexample:
  "parseIPv4 go_net ''gateway'' = None \<and>
   validateDHCPRange go_net ''172.16.0.0/16'' ''gateway'' ''172.16.0.10'' ''172.16.0.20'' = None"
  by code_simp

text \<open>
  C10. When the subnet parses, start and end parse and lie in the subnet with start at
  most end, and the gateway text does not parse as an IPv4 address,
  \<^verbatim>\<open>validateDHCPRange\<close> returns nil: the gateway check is skipped.
\<close>

theorem validateDHCPRange_unparsable_gateway:
  assumes "parseCIDRv4 L subnet = Some ipnet"
    and "parseIPv4 L start = Some s"
    and "parseIPv4 L endT = Some e"
    and "ipInNet s ipnet" and "ipInNet e ipnet"
    and "addr_value s \<le> addr_value e"
    and "parseIPv4 L gateway = None"
  shows "validateDHCPRange L subnet gateway start endT = None"
  using assms by (simp add: validateDHCPRange_def ipLessOrEqual_iff)

theorem validateDHCPRange_unparsable_gateway_witness:
  "parseIPv4 go_net ''10.0.0.300'' = None \<and>
   validateDHCPRange go_net ''10.0.0.0/8'' ''10.0.0.300'' ''10.1.2.3'' ''10.200.0.1'' = None"
proof -
  let ?n = "\<lparr>net_IP = Addr4 (IPv4 10 0 0 0), net_Mask = [255, 0, 0, 0]\<rparr>"
  have n: "parseCIDRv4 go_net ''10.0.0.0/8'' = Some ?n"
    by code_simp
  have s: "parseIPv4 go_net ''10.1.2.3'' = Some (IPv4 10 1 2 3)"
    by code_simp
  have e: "parseIPv4 go_net ''10.200.0.1'' = Some (IPv4 10 200 0 1)"
    by code_simp
  have g: "parseIPv4 go_net ''10.0.0.300'' = None"
    by code_simp
  have inside: "ipInNet (IPv4 10 1 2 3) ?n" "ipInNet (IPv4 10 200 0 1) ?n"
    by code_simp+
  have le: "addr_value (IPv4 10 1 2 3) \<le> addr_value (IPv4 10 200 0 1)"
    by simp
  from validateDHCPRange_unparsable_gateway [OF n s e inside le g] g show ?thesis
    by simp
qed


section \<open>Properties of the NAT reconciler\<close>

lemma scan_forwards_iff: "scan_forwards r fs \<longleftrightarrow> r \<or> (\<exists>f\<in>set fs. Enabled f)"
  unfolding scan_forwards_def by (induction fs arbitrary: r) auto

lemma scan_bridges_foldl:
  "foldl (\<lambda>(hasNAT, hasRules) b.
              (let (n, r) = (if NATEnabled b then (True, True) else (hasNAT, hasRules))
               in (n, scan_forwards r (Forwards b)))) (n0, r0) bs =
   (n0 \<or> (\<exists>b\<in>set bs. NATEnabled b),
    r0 \<or> (\<exists>b\<in>set bs. NATEnabled b \<or> (\<exists>f\<in>set (Forwards b). Enabled f)))"
  by (induction bs arbitrary: n0 r0) (auto simp add: scan_forwards_iff)

lemma scan_bridges_eq:
  "scan_bridges bs =
     ((\<exists>b\<in>set bs. NATEnabled b),
      (\<exists>b\<in>set bs. NATEnabled b \<or> (\<exists>f\<in>set (Forwards b). Enabled f)))"
  using scan_bridges_foldl [of False False bs] by (simp add: scan_bridges_def)

lemma nft_Remove_effect:
  "nft_Remove E w =
     (let del = [nftBinary, ''delete'', ''table'', ''ip'', ''pnat''];
          out = fst (Exec_result E del); ok = snd (Exec_result E del)
      in (if ok \<or> strings_Contains out ''No such file or directory'' \<or>
              strings_Contains out ''does not exist''
          then None else Some (NftDeleteTable out),
          w\<lparr>trace := trace w @ EvExec del #
                (if ok then [EvLog ''nftables table removed'' None] else [])\<rparr>))"
  by (auto simp add: nft_Remove_def exec_CombinedOutput_def emit_def Let_def
      split: prod.splits bool.splits)

text \<open>
  C4. When no bridge has NAT enabled and no forward is enabled, \<^verbatim>\<open>Apply\<close> changes no
  file: its only external action is the command that deletes the table (followed by a
  log line when the command succeeded). It returns nil exactly when the command
  succeeded or its output contains "No such file or directory" or "does not exist",
  so deleting an absent table is a success.
\<close>

theorem nft_Apply_nothing_enabled:
  assumes "\<forall>b\<in>set (Bridges cfg). \<not> NATEnabled b \<and> (\<forall>f\<in>set (Forwards b). \<not> Enabled f)"
  shows "files (snd (nft_Apply E Q cfg w)) = files w \<and>
         new_events w (snd (nft_Apply E Q cfg w)) =
           EvExec [nftBinary, ''delete'', ''table'', ''ip'', ''pnat''] #
           (if snd (Exec_result E [nftBinary, ''delete'', ''table'', ''ip'', ''pnat''])
            then [EvLog ''nftables table removed'' None] else []) \<and>
         (fst (nft_Apply E Q cfg w) = None \<longleftrightarrow>
            snd (Exec_result E [nftBinary, ''delete'', ''table'', ''ip'', ''pnat'']) \<or>
            strings_Contains (fst (Exec_result E [nftBinary, ''delete'', ''table'', ''ip'', ''pnat'']))
              ''No such file or directory'' \<or>
            strings_Contains (fst (Exec_result E [nftBinary, ''delete'', ''table'', ''ip'', ''pnat'']))
              ''does not exist'')"
proof -
  from assms have "scan_bridges (Bridges cfg) = (False, False)"
    by (auto simp add: scan_bridges_eq)
  then have "nft_Apply E Q cfg w = nft_Remove E w"
    by (simp add: nft_Apply_def)
  then show ?thesis
    by (simp add: nft_Remove_effect Let_def new_events_def)
qed

theorem nft_Apply_nothing_enabled_witness:
  "fst (nft_Apply env_no_table go_Quote (sample_cfg [quiet_bridge]) world0) = None \<and>
   new_events world0 (snd (nft_Apply env_no_table go_Quote (sample_cfg [quiet_bridge]) world0)) =
     [EvExec [''/usr/sbin/nft'', ''delete'', ''table'', ''ip'', ''pnat'']]"
proof -
  have quiet: "\<forall>b\<in>set (Bridges (sample_cfg [quiet_bridge])).
                 \<not> NATEnabled b \<and> (\<forall>f\<in>set (Forwards b). \<not> Enabled f)"
    by (simp add: sample_cfg_def quiet_bridge_def sample_bridge_def sample_forward_def)
  have out: "Exec_result env_no_table [nftBinary, ''delete'', ''table'', ''ip'', ''pnat''] =
               (''Error: Could not process rule: No such file or directory'', False)"
    by (simp add: env_no_table_def)
  have absent: "strings_Contains ''Error: Could not process rule: No such file or directory''
                  ''No such file or directory''"
    by code_simp
  from nft_Apply_nothing_enabled [OF quiet, of env_no_table go_Quote world0] out absent
  show ?thesis by (simp add: nftBinary_def)
qed

text \<open>
  C5. An enabled forward with protocol "tcp+udp" contributes exactly two lines to the
  prerouting chain, at its place among the lines of the other forwards. Both lines are
  written out here character by character: the interface in quotes, the protocol, the
  external port in decimal, the target address and port, the quoted comment when there
  is one, and a line feed. The first names protocol tcp, the second udp, and they
  differ in nothing else.
\<close>

theorem tcp_udp_forward_two_rules:
  assumes "Bridges cfg = bs1 @ b # bs2"
    and "Forwards b = fs1 @ f # fs2"
    and "Enabled f"
    and "Protocol f = ''tcp+udp''"
  shows "(let wan = WanInterface cfg;
              rule = (\<lambda>proto.
                ''        iifname '' @ Q wan @ '' '' @ proto @
                '' dport '' @ Itoa (unat (ExtPort f)) @
                '' dnat to '' @ IntIP f @ '':'' @ Itoa (unat (IntPort f)) @
                (if Comment f = [] then [] else '' comment '' @ Q (Comment f)) @
                [CHR 0x0A])
          in forward_rules Q wan f = rule ''tcp'' @ rule ''udp'' \<and>
             generateRuleset Q cfg =
               ruleset_header @
               prerouting_rules Q wan bs1 @ concat (map (forward_rules Q wan) fs1) @
               rule ''tcp'' @ rule ''udp'' @
               concat (map (forward_rules Q wan) fs2) @ prerouting_rules Q wan bs2 @
               ruleset_middle @ postrouting_rules Q wan (Bridges cfg) @ ruleset_footer)"
proof -
  have "forward_rules Q (WanInterface cfg) f =
     dnat_rule Q (WanInterface cfg) ''tcp'' f
       (if Comment f \<noteq> [] then '' comment '' @ Q (Comment f) else []) @
     dnat_rule Q (WanInterface cfg) ''udp'' f
       (if Comment f \<noteq> [] then '' comment '' @ Q (Comment f) else [])"
    using assms(3,4) by (simp add: forward_rules_def Let_def)
  with assms(1,2) show ?thesis
    by (simp add: generateRuleset_def prerouting_rules_def Let_def dnat_rule_def newline_def)
qed

lemma Itoa_samples: "Itoa 53 = ''53''" "Itoa 22 = ''22''" "Itoa 2222 = ''2222''"
  by code_simp+

lemma go_Quote_samples:
  "go_Quote ''vmbr0'' = [CHR 0x22] @ ''vmbr0'' @ [CHR 0x22]"
  "go_Quote ''ssh'' = [CHR 0x22] @ ''ssh'' @ [CHR 0x22]"
  by (simp_all add: go_Quote_def quote_byte_def)

theorem tcp_udp_forward_two_rules_witness:
  "forward_rules go_Quote ''vmbr0'' sample_dns_forward =
     ''        iifname '' @ [CHR 0x22] @ ''vmbr0'' @ [CHR 0x22] @
       '' tcp dport 53 dnat to 10.10.10.53:53'' @ [CHR 0x0A] @
     ''        iifname '' @ [CHR 0x22] @ ''vmbr0'' @ [CHR 0x22] @
       '' udp dport 53 dnat to 10.10.10.53:53'' @ [CHR 0x0A] \<and>
   generateRuleset go_Quote
     (sample_cfg [sample_bridge\<lparr>Forwards := [sample_forward, sample_dns_forward]\<rparr>]) =
     ''# Managed by PNAT - do not edit manually'' @ [CHR 0x0A] @
     ''add table ip pnat'' @ [CHR 0x0A] @
     ''flush table ip pnat'' @ [CHR 0x0A] @
     [CHR 0x0A] @
     ''table ip pnat {'' @ [CHR 0x0A] @
     ''    chain prerouting {'' @ [CHR 0x0A] @
     ''        type nat hook prerouting priority dstnat; policy accept;'' @ [CHR 0x0A] @
     ''        iifname '' @ [CHR 0x22] @ ''vmbr0'' @ [CHR 0x22] @
       '' tcp dport 2222 dnat to 10.10.10.101:22 comment '' @
       [CHR 0x22] @ ''ssh'' @ [CHR 0x22] @ [CHR 0x0A] @
     ''        iifname '' @ [CHR 0x22] @ ''vmbr0'' @ [CHR 0x22] @
       '' tcp dport 53 dnat to 10.10.10.53:53'' @ [CHR 0x0A] @
     ''        iifname '' @ [CHR 0x22] @ ''vmbr0'' @ [CHR 0x22] @
       '' udp dport 53 dnat to 10.10.10.53:53'' @ [CHR 0x0A] @
     ''    }'' @ [CHR 0x0A] @
     [CHR 0x0A] @
     ''    chain postrouting {'' @ [CHR 0x0A] @
     ''        type nat hook postrouting priority srcnat; policy accept;'' @ [CHR 0x0A] @
     ''        oifname '' @ [CHR 0x22] @ ''vmbr0'' @ [CHR 0x22] @
       '' ip saddr 10.10.10.0/24 masquerade'' @ [CHR 0x0A] @
     ''    }'' @ [CHR 0x0A] @
     ''}'' @ [CHR 0x0A]"
proof -
  let ?b = "sample_bridge\<lparr>Forwards := [sample_forward, sample_dns_forward]\<rparr>"
  have bs: "Bridges (sample_cfg [?b]) = [] @ ?b # []"
    by (simp add: sample_cfg_def)
  have fs: "Forwards ?b = [sample_forward] @ sample_dns_forward # []"
    by simp
  have en: "Enabled sample_dns_forward" and pr: "Protocol sample_dns_forward = ''tcp+udp''"
    by (simp_all add: sample_dns_forward_def)
  have wan: "WanInterface (sample_cfg [?b]) = ''vmbr0''"
    by (simp add: sample_cfg_def)
  have flds: "Comment sample_dns_forward = []" "ExtPort sample_dns_forward = 53"
    "IntPort sample_dns_forward = 53" "IntIP sample_dns_forward = ''10.10.10.53''"
    by (simp_all add: sample_dns_forward_def)
  have ssh: "forward_rules go_Quote ''vmbr0'' sample_forward =
     ''        iifname '' @ [CHR 0x22] @ ''vmbr0'' @ [CHR 0x22] @
       '' tcp dport 2222 dnat to 10.10.10.101:22 comment '' @
       [CHR 0x22] @ ''ssh'' @ [CHR 0x22] @ [CHR 0x0A]"
    by (simp add: forward_rules_def dnat_rule_def sample_forward_def Itoa_samples
        go_Quote_samples newline_def)
  have post: "postrouting_rules go_Quote ''vmbr0'' [?b] =
     ''        oifname '' @ [CHR 0x22] @ ''vmbr0'' @ [CHR 0x22] @
       '' ip saddr 10.10.10.0/24 masquerade'' @ [CHR 0x0A]"
    by (simp add: postrouting_rules_def masquerade_rule_def sample_bridge_def go_Quote_samples
        newline_def)
  from tcp_udp_forward_two_rules [OF bs fs en pr, of go_Quote] show ?thesis
    by (simp add: Let_def wan flds bs prerouting_rules_def Itoa_samples go_Quote_samples
        ssh post ruleset_header_def ruleset_middle_def ruleset_footer_def newline_def)
qed

section \<open>Properties of persistence\<close>

lemma tmp_path_differs: "p @ ''.tmp'' \<noteq> p"
  by (metis append_self_conv list.distinct(1))

text \<open>
  C7. \<^verbatim>\<open>Save\<close> writes the serialized model to the path with ".tmp" appended and then
  renames that file over the canonical path. When the write fails it returns the
  write error, and when the rename fails it returns the rename error (after removing
  the temporary file); in both cases the canonical file is what it was. When both
  succeed it returns nil and the canonical file holds the serialized model.
\<close>

theorem Save_atomic:
  assumes "M c = Some data"
  shows "(WriteFile_outcome E (cfg_path c @ ''.tmp'') data \<noteq> Written \<longrightarrow>
            fst (Save E M c w) = Some WriteTempConfig \<and>
            files (snd (Save E M c w)) (cfg_path c) = files w (cfg_path c) \<and>
            new_events w (snd (Save E M c w)) = [EvWriteFile (cfg_path c @ ''.tmp'') data]) \<and>
         (WriteFile_outcome E (cfg_path c @ ''.tmp'') data = Written \<and>
          \<not> Rename_ok E (cfg_path c @ ''.tmp'') (cfg_path c) \<longrightarrow>
            fst (Save E M c w) = Some RenameConfig \<and>
            files (snd (Save E M c w)) (cfg_path c) = files w (cfg_path c) \<and>
            new_events w (snd (Save E M c w)) =
              [EvWriteFile (cfg_path c @ ''.tmp'') data,
               EvRename (cfg_path c @ ''.tmp'') (cfg_path c),
               EvRemove (cfg_path c @ ''.tmp'')]) \<and>
         (WriteFile_outcome E (cfg_path c @ ''.tmp'') data = Written \<and>
          Rename_ok E (cfg_path c @ ''.tmp'') (cfg_path c) \<longrightarrow>
            fst (Save E M c w) = None \<and>
            files (snd (Save E M c w)) (cfg_path c) = Some data \<and>
            new_events w (snd (Save E M c w)) =
              [EvWriteFile (cfg_path c @ ''.tmp'') data,
               EvRename (cfg_path c @ ''.tmp'') (cfg_path c)])"
  using assms
  by (auto simp add: Save_def Let_def os_WriteFile_def os_Rename_def os_Remove_def emit_def
      new_events_def tmp_path_differs split: write_outcome.splits)

theorem Save_atomic_witness:
  "fst (Save env_no_rename sample_marshal (sample_cfg [sample_bridge])
          (world0\<lparr>files := [''/etc/pnat/pnat.json'' \<mapsto> ''old'']\<rparr>)) = Some RenameConfig \<and>
   files (snd (Save env_no_rename sample_marshal (sample_cfg [sample_bridge])
          (world0\<lparr>files := [''/etc/pnat/pnat.json'' \<mapsto> ''old'']\<rparr>))) ''/etc/pnat/pnat.json''
     = Some ''old'' \<and>
   fst (Save env_ok sample_marshal (sample_cfg [sample_bridge])
          (world0\<lparr>files := [''/etc/pnat/pnat.json'' \<mapsto> ''old'']\<rparr>)) = None \<and>
   files (snd (Save env_ok sample_marshal (sample_cfg [sample_bridge])
          (world0\<lparr>files := [''/etc/pnat/pnat.json'' \<mapsto> ''old'']\<rparr>))) ''/etc/pnat/pnat.json''
     = Some (''vmbr1'' @ newline)"
proof -
  let ?c = "sample_cfg [sample_bridge]"
  let ?w = "world0\<lparr>files := [''/etc/pnat/pnat.json'' \<mapsto> ''old'']\<rparr>"
  have m: "sample_marshal ?c = Some (''vmbr1'' @ newline)"
    by (simp add: sample_marshal_def sample_cfg_def sample_bridge_def)
  have p: "cfg_path ?c = ''/etc/pnat/pnat.json''"
    by (simp add: sample_cfg_def)
  have old: "files ?w ''/etc/pnat/pnat.json'' = Some ''old''"
    by simp
  from Save_atomic [where M = sample_marshal and c = ?c and E = env_no_rename and w = ?w, OF m]
    Save_atomic [where M = sample_marshal and c = ?c and E = env_ok and w = ?w, OF m] old
  show ?thesis
    by (simp add: p env_no_rename_def env_ok_def)
qed

section \<open>Applying an unchanged model again\<close>

lemma paths_distinct:
  "rulesFile \<noteq> sysctlProc" "rulesFile \<noteq> sysctlFile"
  "rulesFile @ ''.tmp'' \<noteq> sysctlProc" "rulesFile @ ''.tmp'' \<noteq> sysctlFile"
  "rulesFile @ ''.tmp'' \<noteq> rulesFile"
  "dnsmasqConfigPath \<noteq> rulesFile" "dnsmasqConfigPath \<noteq> rulesFile @ ''.tmp''"
  "dnsmasqConfigPath \<noteq> sysctlProc" "dnsmasqConfigPath \<noteq> sysctlFile"
  by (simp_all add: rulesFile_def sysctlProc_def sysctlFile_def dnsmasqConfigPath_def)

lemma enableIPForward_files:
  "enableIPForward E w = (r, w') \<Longrightarrow> p \<noteq> sysctlProc \<Longrightarrow> p \<noteq> sysctlFile \<Longrightarrow>
   files w' p = files w p"
  by (auto simp add: enableIPForward_def os_WriteFile_def emit_def
      split: write_outcome.splits prod.splits bool.splits if_splits)

lemma nft_Remove_files: "nft_Remove E w = (r, w') \<Longrightarrow> files w' = files w"
  by (auto simp add: nft_Remove_effect Let_def)

lemma after_ipforward_files:
  "p \<noteq> sysctlProc \<Longrightarrow> p \<noteq> sysctlFile \<Longrightarrow> files (after_ipforward E n w) p = files w p"
  unfolding after_ipforward_def
  by (auto simp add: emit_def split: prod.splits option.splits dest: enableIPForward_files)

lemma nft_Apply_unfold:
  "nft_Apply E Q cfg w =
     (let hasNAT = fst (scan_bridges (Bridges cfg)); hasRules = snd (scan_bridges (Bridges cfg));
          w1 = after_ipforward E hasNAT w
      in if \<not> hasRules then nft_Remove E w1
         else
           (let rules = generateRuleset Q cfg;
                w2 = emit (EvMkdirAll rulesDir) w1;
                tmp = rulesFile @ ''.tmp''
            in case os_WriteFile E tmp rules w2 of
                 (False, w3) \<Rightarrow> (Some WriteRules, w3)
               | (True, w3) \<Rightarrow>
                   (case os_Rename E tmp rulesFile w3 of
                      (False, w4) \<Rightarrow> (Some RenameRules, os_Remove tmp w4)
                    | (True, w4) \<Rightarrow>
                        (case exec_CombinedOutput E [nftBinary, ''-f'', rulesFile] w4 of
                           ((out, False), w5) \<Rightarrow> (Some (NftApply out), w5)
                         | ((out, True), w5) \<Rightarrow>
                             (None, emit (EvLog ''nftables rules applied successfully'' None) w5)))))"
  by (simp add: nft_Apply_def after_ipforward_def Let_def split: prod.splits)

lemma nft_Apply_files_other:
  assumes "nft_Apply E Q cfg w = (r, w')"
    and "p \<noteq> rulesFile" "p \<noteq> rulesFile @ ''.tmp''" "p \<noteq> sysctlProc" "p \<noteq> sysctlFile"
  shows "files w' p = files w p"
  using assms
  by (auto simp add: nft_Apply_unfold Let_def os_WriteFile_def os_Rename_def os_Remove_def
      exec_CombinedOutput_def emit_def after_ipforward_files
      split: if_splits write_outcome.splits prod.splits bool.splits dest: nft_Remove_files)

lemma nft_Apply_success_rulesFile:
  assumes "nft_Apply E Q cfg w = (None, w')"
  shows "files w' rulesFile =
     (if snd (scan_bridges (Bridges cfg)) then Some (generateRuleset Q cfg)
      else files w rulesFile)"
  using assms
  by (auto simp add: nft_Apply_unfold Let_def os_WriteFile_def os_Rename_def os_Remove_def
      exec_CombinedOutput_def emit_def after_ipforward_files paths_distinct
      split: if_splits write_outcome.splits prod.splits bool.splits dest: nft_Remove_files)

lemma dnsmasq_stop_files: "dnsmasq_stop E w = (r, w') \<Longrightarrow> files w' = files w"
  by (auto simp add: dnsmasq_stop_def exec_CombinedOutput_def emit_def
      split: prod.splits bool.splits if_splits)

lemma dnsmasq_Apply_files_other:
  assumes "dnsmasq_Apply E cfg w = (r, w')" and "p \<noteq> dnsmasqConfigPath"
  shows "files w' p = files w p"
  using assms
  by (auto simp add: dnsmasq_Apply_def Let_def os_WriteFile_def exec_CombinedOutput_def emit_def
      split: if_splits write_outcome.splits prod.splits bool.splits dest: dnsmasq_stop_files)

lemma dnsmasq_Apply_success_config:
  assumes "dnsmasq_Apply E cfg w = (None, w')"
  shows "files w' dnsmasqConfigPath =
     (if list_ex (\<lambda>b. DHCP b \<noteq> None) (Bridges cfg) then Some (generateConfig cfg)
      else files w dnsmasqConfigPath)"
  using assms
  by (auto simp add: dnsmasq_Apply_def Let_def os_WriteFile_def exec_CombinedOutput_def emit_def
      split: if_splits write_outcome.splits prod.splits bool.splits dest: dnsmasq_stop_files)

text \<open>
  C9. The text each compiler produces depends on the model alone (and on the fixed
  quoting function of the library), not on the host. So when both reconcilers are
  applied successfully to a model and then, with the model unchanged, applied
  successfully again, whatever the host answered in between, the ruleset file and the
  DHCP configuration file hold after the second round exactly what they held after the
  first; and whenever a text was written it is the compiler's text for the model.
\<close>

theorem reapply_same_texts:
  assumes "nft_Apply E1 Q cfg w0 = (None, w1)"
    and "dnsmasq_Apply E1 cfg w1 = (None, w2)"
    and "nft_Apply E2 Q cfg w2 = (None, w3)"
    and "dnsmasq_Apply E2 cfg w3 = (None, w4)"
  shows "files w3 rulesFile = files w1 rulesFile \<and>
         files w4 dnsmasqConfigPath = files w2 dnsmasqConfigPath \<and>
         (snd (scan_bridges (Bridges cfg)) \<longrightarrow>
            files w1 rulesFile = Some (generateRuleset Q cfg)) \<and>
         (list_ex (\<lambda>b. DHCP b \<noteq> None) (Bridges cfg) \<longrightarrow>
            files w2 dnsmasqConfigPath = Some (generateConfig cfg))"
proof -
  have r1: "files w2 rulesFile = files w1 rulesFile"
    using dnsmasq_Apply_files_other [OF assms(2)] paths_distinct by metis
  have d3: "files w3 dnsmasqConfigPath = files w2 dnsmasqConfigPath"
    using nft_Apply_files_other [OF assms(3)] paths_distinct by metis
  show ?thesis
    using nft_Apply_success_rulesFile [OF assms(1)] nft_Apply_success_rulesFile [OF assms(3)]
      dnsmasq_Apply_success_config [OF assms(2)] dnsmasq_Apply_success_config [OF assms(4)]
      r1 d3
    by (simp split: if_splits)
qed

theorem reapply_same_texts_witness:
  "files twice_w3 rulesFile = Some (generateRuleset go_Quote (sample_cfg [sample_bridge])) \<and>
   files twice_w1 rulesFile = Some (generateRuleset go_Quote (sample_cfg [sample_bridge])) \<and>
   files twice_w4 dnsmasqConfigPath = Some (generateConfig (sample_cfg [sample_bridge])) \<and>
   files twice_w2 dnsmasqConfigPath = Some (generateConfig (sample_cfg [sample_bridge]))"
proof -
  let ?c = "sample_cfg [sample_bridge]"
  have scan: "scan_bridges (Bridges ?c) = (True, True)"
    by (simp add: scan_bridges_eq sample_cfg_def sample_bridge_def)
  have pool: "list_ex (\<lambda>b. DHCP b \<noteq> None) (Bridges ?c)"
    by (simp add: sample_cfg_def sample_bridge_def)
  have n1: "fst (nft_Apply env_ok go_Quote ?c world0) = None"
    by code_simp
  have d1: "fst (dnsmasq_Apply env_ok ?c twice_w1) = None"
    by code_simp
  have n2: "fst (nft_Apply env_no_table go_Quote ?c twice_w2) = None"
    by code_simp
  have d2: "fst (dnsmasq_Apply env_no_table ?c twice_w3) = None"
    by code_simp
  have a1: "nft_Apply env_ok go_Quote ?c world0 = (None, twice_w1)"
    using n1 by (simp add: twice_w1_def prod_eq_iff)
  have a2: "dnsmasq_Apply env_ok ?c twice_w1 = (None, twice_w2)"
    using d1 by (simp add: twice_w2_def prod_eq_iff)
  have a3: "nft_Apply env_no_table go_Quote ?c twice_w2 = (None, twice_w3)"
    using n2 by (simp add: twice_w3_def prod_eq_iff)
  have a4: "dnsmasq_Apply env_no_table ?c twice_w3 = (None, twice_w4)"
    using d2 by (simp add: twice_w4_def prod_eq_iff)
  from reapply_same_texts [OF a1 a2 a3 a4] scan pool show ?thesis
    by simp
qed

section \<open>The calls of the mutation handlers\<close>

subsection \<open>Calls added to the trace\<close>

lemma ext_refl: "ext w w []"
  by (simp add: ext_def)

lemma ext_trans: "ext w w' a \<Longrightarrow> ext w' w'' b \<Longrightarrow> ext w w'' (a @ b)"
  by (auto simp add: ext_def)

lemma ext_calls: "ext w w' cs \<Longrightarrow> calls w w' = cs"
  by (auto simp add: ext_def calls_def new_events_def)

lemma ext_emit_call: "is_call ev \<Longrightarrow> ext w (emit ev w) [ev]"
  by (simp add: ext_def emit_def)

lemma ext_emit_quiet: "\<not> is_call ev \<Longrightarrow> ext w (emit ev w) []"
  by (simp add: ext_def emit_def)

lemma ext_then_emit_call: "ext w w' a \<Longrightarrow> is_call ev \<Longrightarrow> ext w (emit ev w') (a @ [ev])"
  using ext_trans ext_emit_call by blast

lemma ext_then_emit_quiet: "ext w w' a \<Longrightarrow> \<not> is_call ev \<Longrightarrow> ext w (emit ev w') a"
  using ext_trans [OF _ ext_emit_quiet] by fastforce

lemma ext_WriteFile: "os_WriteFile E p d w = (r, w') \<Longrightarrow> ext w w' []"
  by (auto simp add: os_WriteFile_def ext_def emit_def split: write_outcome.splits)

lemma ext_Rename: "os_Rename E a b w = (r, w') \<Longrightarrow> ext w w' []"
  by (auto simp add: os_Rename_def ext_def emit_def split: if_splits)

lemma ext_Remove: "ext w (os_Remove p w) []"
  by (simp add: os_Remove_def ext_def emit_def)

lemma ext_exec: "exec_CombinedOutput E args w = (r, w') \<Longrightarrow> ext w w' []"
  by (auto simp add: exec_CombinedOutput_def ext_def emit_def)

lemma ext_Save: "Save E M c w = (r, w') \<Longrightarrow> ext w w' []"
  by (auto simp add: Save_def Let_def ext_refl split: option.splits prod.splits bool.splits
      dest!: ext_WriteFile ext_Rename intro: ext_trans [where a = "[]" and b = "[]", simplified] ext_Remove)

lemma ext_quiet_trans: "ext w w' [] \<Longrightarrow> ext w' w'' [] \<Longrightarrow> ext w w'' []"
  using ext_trans [of w w' "[]" w'' "[]"] by simp

lemma ext_enableIPForward: "enableIPForward E w = (r, w') \<Longrightarrow> ext w w' []"
  by (auto simp add: enableIPForward_def split: prod.splits bool.splits
      dest!: ext_WriteFile intro: ext_quiet_trans ext_then_emit_quiet)

lemma ext_nft_Remove: "nft_Remove E w = (r, w') \<Longrightarrow> ext w w' []"
  by (auto simp add: nft_Remove_def split: prod.splits bool.splits if_splits
      dest!: ext_exec intro: ext_then_emit_quiet)

lemma ext_after_ipforward: "ext w (after_ipforward E n w) []"
  by (auto simp add: after_ipforward_def ext_refl split: prod.splits option.splits
      dest!: ext_enableIPForward intro: ext_then_emit_quiet)

lemma ext_nft_Apply: "nft_Apply E Q cfg w = (r, w') \<Longrightarrow> ext w w' []"
proof -
  assume a: "nft_Apply E Q cfg w = (r, w')"
  let ?w1 = "after_ipforward E (fst (scan_bridges (Bridges cfg))) w"
  have e1: "ext w ?w1 []" by (rule ext_after_ipforward)
  have "ext ?w1 w' []"
  proof (cases "snd (scan_bridges (Bridges cfg))")
    case False
    with a have "nft_Remove E ?w1 = (r, w')" by (simp add: nft_Apply_unfold Let_def)
    then show ?thesis by (rule ext_nft_Remove)
  next
    case True
    let ?w2 = "emit (EvMkdirAll rulesDir) ?w1"
    have e2: "ext ?w1 ?w2 []" by (simp add: ext_emit_quiet)
    have "ext ?w2 w' []"
      using a True
      by (auto simp add: nft_Apply_unfold Let_def split: prod.splits bool.splits
          dest!: ext_WriteFile ext_Rename ext_exec)
        (meson ext_quiet_trans ext_then_emit_quiet ext_Remove is_call.simps)+
    with e2 show ?thesis by (rule ext_quiet_trans)
  qed
  with e1 show ?thesis by (rule ext_quiet_trans)
qed

lemma ext_dnsmasq_stop: "dnsmasq_stop E w = (r, w') \<Longrightarrow> ext w w' []"
  by (auto simp add: dnsmasq_stop_def split: prod.splits bool.splits if_splits dest!: ext_exec)

lemma ext_dnsmasq_Apply: "dnsmasq_Apply E cfg w = (r, w') \<Longrightarrow> ext w w' []"
  by (auto simp add: dnsmasq_Apply_def Let_def split: prod.splits bool.splits if_splits
      dest!: ext_WriteFile ext_exec ext_dnsmasq_stop intro: ext_quiet_trans ext_then_emit_quiet)

lemma ext_save_logged: "ext w (save_logged D c w) [EvCall ''cfg.Save'' c]"
proof -
  let ?w0 = "emit (EvCall ''cfg.Save'' c) w"
  have e0: "ext w ?w0 [EvCall ''cfg.Save'' c]" by (simp add: ext_emit_call)
  have "ext ?w0 (save_logged D c w) []"
    by (auto simp add: save_logged_def split: prod.splits option.splits
        dest!: ext_Save intro: ext_then_emit_quiet)
  with e0 show ?thesis using ext_trans by fastforce
qed

lemma ext_nft_logged: "ext w (nft_logged D c w) [EvCall ''nft.Apply'' c]"
proof -
  let ?w0 = "emit (EvCall ''nft.Apply'' c) w"
  have e0: "ext w ?w0 [EvCall ''nft.Apply'' c]" by (simp add: ext_emit_call)
  have "ext ?w0 (nft_logged D c w) []"
    by (auto simp add: nft_logged_def split: prod.splits option.splits
        dest!: ext_nft_Apply intro: ext_then_emit_quiet)
  with e0 show ?thesis using ext_trans by fastforce
qed

lemma ext_dnsmasq_logged: "ext w (dnsmasq_logged D c w) [EvCall ''dnsmasq.Apply'' c]"
proof -
  let ?w0 = "emit (EvCall ''dnsmasq.Apply'' c) w"
  have e0: "ext w ?w0 [EvCall ''dnsmasq.Apply'' c]" by (simp add: ext_emit_call)
  have "ext ?w0 (dnsmasq_logged D c w) []"
    by (auto simp add: dnsmasq_logged_def split: prod.splits option.splits
        dest!: ext_dnsmasq_Apply intro: ext_then_emit_quiet)
  with e0 show ?thesis using ext_trans by fastforce
qed

text \<open>The calls of the three tails the handlers end with.\<close>

lemma ext_save_nft:
  "ext w (emit EvUnlock (nft_logged D c (save_logged D c (emit EvLock w))))
     [EvLock, EvCall ''cfg.Save'' c, EvCall ''nft.Apply'' c, EvUnlock]"
proof -
  have "ext w (emit EvLock w) [EvLock]" by (simp add: ext_emit_call)
  from ext_trans [OF this ext_save_logged] 
  have "ext w (save_logged D c (emit EvLock w)) [EvLock, EvCall ''cfg.Save'' c]" by simp
  from ext_trans [OF this ext_nft_logged]
  have "ext w (nft_logged D c (save_logged D c (emit EvLock w)))
          [EvLock, EvCall ''cfg.Save'' c, EvCall ''nft.Apply'' c]" by simp
  from ext_then_emit_call [OF this, of EvUnlock] show ?thesis by simp
qed


lemma ext_save_nft_dnsmasq:
  "ext w (dnsmasq_logged D c (nft_logged D c (save_logged D c w)))
     [EvCall ''cfg.Save'' c, EvCall ''nft.Apply'' c, EvCall ''dnsmasq.Apply'' c]"
proof -
  from ext_trans [OF ext_save_logged ext_nft_logged] 
  have "ext w (nft_logged D c (save_logged D c w))
          [EvCall ''cfg.Save'' c, EvCall ''nft.Apply'' c]" by simp
  from ext_trans [OF this ext_dnsmasq_logged] show ?thesis by simp
qed

lemma ext_lock_unlock: "ext w (emit EvUnlock (emit EvLock w)) [EvLock, EvUnlock]"
  using ext_then_emit_call [OF ext_emit_call [of EvLock w], of EvUnlock] by simp

lemma calls_lock_unlock: "calls w (emit EvUnlock (emit EvLock w)) = [EvLock, EvUnlock]"
  by (rule ext_calls [OF ext_lock_unlock])

lemma calls_save_nft:
  "calls w (emit EvUnlock (nft_logged D c (save_logged D c (emit EvLock w)))) =
     [EvLock, EvCall ''cfg.Save'' c, EvCall ''nft.Apply'' c, EvUnlock]"
  by (rule ext_calls [OF ext_save_nft])


lemma calls_save_nft_dnsmasq:
  "calls w (emit EvUnlock (dnsmasq_logged D c (nft_logged D c (save_logged D c (emit EvLock w))))) =
     [EvLock, EvCall ''cfg.Save'' c, EvCall ''nft.Apply'' c, EvCall ''dnsmasq.Apply'' c, EvUnlock]"
proof -
  have "ext w (emit EvLock w) [EvLock]" by (simp add: ext_emit_call)
  from ext_trans [OF this ext_save_nft_dnsmasq]
  have "ext w (dnsmasq_logged D c (nft_logged D c (save_logged D c (emit EvLock w))))
          [EvLock, EvCall ''cfg.Save'' c, EvCall ''nft.Apply'' c, EvCall ''dnsmasq.Apply'' c]"
    by simp
  from ext_calls [OF ext_then_emit_call [OF this, of EvUnlock]] show ?thesis by simp
qed

lemma calls_same [simp]: "calls w w = []"
  by (rule ext_calls [OF ext_refl])

lemma HandleNATToggle_calls:
  assumes "HandleNATToggle D frm cfg w = (resp, cfg', w')"
  shows "if is_redirect resp
         then (\<exists>i. FindBridge cfg (frm ''bridge'') = Some i \<and>
                 cfg' = cfg\<lparr>Bridges := (Bridges cfg)
                           [i := (Bridges cfg ! i)\<lparr>NATEnabled := \<not> NATEnabled (Bridges cfg ! i)\<rparr>]\<rparr>) \<and>
              calls w w' = [EvLock, EvCall ''cfg.Save'' cfg', EvCall ''nft.Apply'' cfg', EvUnlock]
         else cfg' = cfg \<and> calls w w' = [EvLock, EvUnlock]"
  using assms
  by (auto simp add: HandleNATToggle_def Let_def calls_lock_unlock calls_save_nft
      split: option.splits)

lemma DeleteForward_False: "DeleteForward cfg fid = (False, c) \<Longrightarrow> c = cfg"
  by (auto simp add: DeleteForward_def Let_def split: option.splits)

lemma DeleteBridge_False: "DeleteBridge cfg name = (False, c) \<Longrightarrow> c = cfg"
  by (auto simp add: DeleteBridge_def Let_def split: option.splits)

lemma HandleForwardDelete_calls:
  assumes "HandleForwardDelete D frm cfg w = (resp, cfg', w')"
  shows "if is_redirect resp
         then DeleteForward cfg (frm ''id'') = (True, cfg') \<and>
              calls w w' = [EvLock, EvCall ''cfg.Save'' cfg', EvCall ''nft.Apply'' cfg', EvUnlock]
         else cfg' = cfg \<and> calls w w' = [EvLock, EvUnlock]"
  using assms
  by (auto simp add: HandleForwardDelete_def Let_def calls_lock_unlock calls_save_nft
      split: prod.splits bool.splits dest: DeleteForward_False)

lemma HandleForwardToggle_calls:
  assumes "HandleForwardToggle D frm cfg w = (resp, cfg', w')"
  shows "if is_redirect resp
         then (\<exists>i j. FindForward cfg (frm ''id'') = Some (i, j) \<and>
                 cfg' = cfg\<lparr>Bridges := (Bridges cfg)
                   [i := (Bridges cfg ! i)\<lparr>Forwards := (Forwards (Bridges cfg ! i))
                      [j := (Forwards (Bridges cfg ! i) ! j)
                              \<lparr>Enabled := \<not> Enabled (Forwards (Bridges cfg ! i) ! j)\<rparr>]\<rparr>]\<rparr>) \<and>
              calls w w' = [EvLock, EvCall ''cfg.Save'' cfg', EvCall ''nft.Apply'' cfg', EvUnlock]
         else cfg' = cfg \<and> calls w w' = [EvLock, EvUnlock]"
  using assms
  by (auto simp add: HandleForwardToggle_def Let_def calls_lock_unlock calls_save_nft
      split: option.splits prod.splits)

lemma HandleBridgeDetach_calls:
  assumes "HandleBridgeDetach D frm cfg w = (resp, cfg', w')"
  shows "if is_redirect resp
         then DeleteBridge cfg (TrimSpace D (frm ''name'')) = (True, cfg') \<and>
              calls w w' = [EvLock, EvCall ''cfg.Save'' cfg', EvCall ''nft.Apply'' cfg',
                            EvCall ''dnsmasq.Apply'' cfg', EvUnlock]
         else cfg' = cfg \<and> (calls w w' = [] \<or> calls w w' = [EvLock, EvUnlock])"
  using assms
  by (auto simp add: HandleBridgeDetach_def Let_def calls_lock_unlock calls_save_nft_dnsmasq
      split: prod.splits bool.splits if_splits dest: DeleteBridge_False)




subsection \<open>Creating and attaching a bridge\<close>







lemma ext_lock_unlock_then:
  "ext (emit EvUnlock (emit EvLock w)) w' cs \<Longrightarrow> ext w w' (EvLock # EvUnlock # cs)"
  using ext_trans [OF ext_lock_unlock, of w w' cs] by simp









subsection \<open>The calls of each HTTP handler\<close>

lemma ext_calls_or:
  "ext w w' [] \<or> ext w w' [EvLock, EvUnlock] \<Longrightarrow>
   calls w w' = [] \<or> calls w w' = [EvLock, EvUnlock]"
  using ext_calls by blast



lemma order_ForwardDelete:
  "case HandleForwardDelete D frm cfg w of (resp, cfg', w') \<Rightarrow>
      if is_redirect resp
      then DeleteForward cfg (frm ''id'') = (True, cfg') \<and>
           calls w w' = [EvLock, EvCall ''cfg.Save'' cfg', EvCall ''nft.Apply'' cfg', EvUnlock]
      else cfg' = cfg \<and> calls w w' = [EvLock, EvUnlock]"
  by (auto simp add: HandleForwardDelete_def Let_def calls_lock_unlock calls_save_nft
      split: prod.split bool.split dest: DeleteForward_False)

lemma order_ForwardToggle:
  "case HandleForwardToggle D frm cfg w of (resp, cfg', w') \<Rightarrow>
      if is_redirect resp
      then (\<exists>i j. FindForward cfg (frm ''id'') = Some (i, j) \<and>
              cfg' = cfg\<lparr>Bridges := (Bridges cfg)
                [i := (Bridges cfg ! i)\<lparr>Forwards := (Forwards (Bridges cfg ! i))
                   [j := (Forwards (Bridges cfg ! i) ! j)
                           \<lparr>Enabled := \<not> Enabled (Forwards (Bridges cfg ! i) ! j)\<rparr>]\<rparr>]\<rparr>) \<and>
           calls w w' = [EvLock, EvCall ''cfg.Save'' cfg', EvCall ''nft.Apply'' cfg', EvUnlock]
      else cfg' = cfg \<and> calls w w' = [EvLock, EvUnlock]"
  by (simp add: HandleForwardToggle_def Let_def calls_lock_unlock calls_save_nft
      split: option.split prod.split)




lemma order_BridgeDetach:
  "case HandleBridgeDetach D frm cfg w of (resp, cfg', w') \<Rightarrow>
      if is_redirect resp
      then DeleteBridge cfg (TrimSpace D (frm ''name'')) = (True, cfg') \<and>
           calls w w' = [EvLock, EvCall ''cfg.Save'' cfg', EvCall ''nft.Apply'' cfg',
                         EvCall ''dnsmasq.Apply'' cfg', EvUnlock]
      else cfg' = cfg \<and> (calls w w' = [] \<or> calls w w' = [EvLock, EvUnlock])"
  by (auto simp add: HandleBridgeDetach_def Let_def calls_lock_unlock calls_save_nft_dnsmasq
      split: prod.split bool.split dest: DeleteBridge_False)

subsection \<open>When the HTTP handlers accept\<close>

lemma HandleForwardCreate_accept:
  assumes "ParseUint16 (frm ''ext_port'') = Some extPort" and "extPort \<noteq> 0"
    and "ParseUint16 (frm ''int_port'') = Some intPort" and "intPort \<noteq> 0"
    and "frm ''protocol'' = ''tcp'' \<or> frm ''protocol'' = ''udp'' \<or> frm ''protocol'' = ''tcp+udp''"
    and "parseIPv4 (net D) (frm ''int_ip'') = Some a"
    and "FindBridge cfg (frm ''bridge'') = Some i"
    and "parseCIDRv4 (net D) (Subnet (Bridges cfg ! i)) = Some n"
    and "ipInNet a n"
    and "\<not> port_in_use cfg extPort (frm ''protocol'')"
  shows "fst (HandleForwardCreate D newID frm cfg w) = Redirect ''/forwards'' 303 \<and>
         fst (snd (HandleForwardCreate D newID frm cfg w)) =
           cfg\<lparr>Bridges := (Bridges cfg)
             [i := (Bridges cfg ! i)\<lparr>Forwards := Forwards (Bridges cfg ! i) @
                [\<lparr>ID = newID, Protocol = frm ''protocol'', ExtPort = extPort,
                  IntIP = frm ''int_ip'', IntPort = intPort, Comment = frm ''comment'',
                  Enabled = True\<rparr>]\<rparr>]\<rparr>"
proof -
  from assms(6) have ip: "ParseIP (net D) (frm ''int_ip'') \<noteq> None"
    by (auto simp add: parseIPv4_def split: option.splits)
  from assms(5) have pr: "(frm ''protocol'' \<noteq> ''tcp'' \<and> frm ''protocol'' \<noteq> ''udp'' \<and>
      frm ''protocol'' \<noteq> ''tcp+udp'') = False"
    by blast
  show ?thesis
    unfolding HandleForwardCreate_def Let_def
    by (simp only: assms(1-4,6-10) ip pr option.case if_False if_True fst_conv snd_conv not_True_eq_False not_False_eq_True simp_thms)
qed

lemma HandleForwardCreate_reject:
  assumes "ParseUint16 (frm ''ext_port'') = Some extPort" and "extPort \<noteq> 0"
    and "ParseUint16 (frm ''int_port'') = Some intPort" and "intPort \<noteq> 0"
    and "frm ''protocol'' = ''tcp'' \<or> frm ''protocol'' = ''udp'' \<or> frm ''protocol'' = ''tcp+udp''"
    and "parseIPv4 (net D) (frm ''int_ip'') = Some a"
    and "FindBridge cfg (frm ''bridge'') = Some i"
    and "parseCIDRv4 (net D) (Subnet (Bridges cfg ! i)) = Some n"
    and "ipInNet a n"
    and "port_in_use cfg extPort (frm ''protocol'')"
  shows "HandleForwardCreate D newID frm cfg w =
           (HttpError (''External port '' @ Itoa (unat extPort) @ '' already in use'') 400,
            cfg, emit EvUnlock (emit EvLock w))"
proof -
  from assms(6) have ip: "ParseIP (net D) (frm ''int_ip'') \<noteq> None"
    by (auto simp add: parseIPv4_def split: option.splits)
  from assms(5) have pr: "(frm ''protocol'' \<noteq> ''tcp'' \<and> frm ''protocol'' \<noteq> ''udp'' \<and>
      frm ''protocol'' \<noteq> ''tcp+udp'') = False"
    by blast
  show ?thesis
    unfolding HandleForwardCreate_def Let_def
    by (simp only: assms(1-4,6-10) ip pr option.case if_False if_True fst_conv snd_conv not_True_eq_False not_False_eq_True simp_thms)
qed

lemma HandleForwardToggle_found:
  assumes "FindForward cfg (frm ''id'') = Some (i, j)"
  shows "fst (HandleForwardToggle D frm cfg w) = Redirect ''/forwards'' 303 \<and>
         fst (snd (HandleForwardToggle D frm cfg w)) =
           cfg\<lparr>Bridges := (Bridges cfg)
             [i := (Bridges cfg ! i)\<lparr>Forwards := (Forwards (Bridges cfg ! i))
                [j := (Forwards (Bridges cfg ! i) ! j)
                        \<lparr>Enabled := \<not> Enabled (Forwards (Bridges cfg ! i) ! j)\<rparr>]\<rparr>]\<rparr>"
  using assms by (simp add: HandleForwardToggle_def Let_def)


lemma parseIPv4_ParseIP: "parseIPv4 L s = Some a \<Longrightarrow> ParseIP L s \<noteq> None"
  by (auto simp add: parseIPv4_def split: option.splits)

lemma NATToggle_accepts:
  "is_redirect (fst (HandleNATToggle D frm cfg w)) \<longleftrightarrow> FindBridge cfg (frm ''bridge'') \<noteq> None"
  by (simp add: HandleNATToggle_def Let_def split: option.split)

lemma ForwardDelete_accepts:
  "is_redirect (fst (HandleForwardDelete D frm cfg w)) \<longleftrightarrow> FindForward cfg (frm ''id'') \<noteq> None"
  by (simp add: HandleForwardDelete_def DeleteForward_def Let_def split: option.split prod.split)

lemma ForwardToggle_accepts:
  "is_redirect (fst (HandleForwardToggle D frm cfg w)) \<longleftrightarrow> FindForward cfg (frm ''id'') \<noteq> None"
  by (simp add: HandleForwardToggle_def Let_def split: option.split prod.split)

lemma BridgeDetach_accepts:
  "is_redirect (fst (HandleBridgeDetach D frm cfg w)) \<longleftrightarrow>
     TrimSpace D (frm ''name'') \<noteq> [] \<and> FindBridge cfg (TrimSpace D (frm ''name'')) \<noteq> None"
  by (simp add: HandleBridgeDetach_def DeleteBridge_def FindBridge_def Let_def
      split: option.split prod.split)













subsection \<open>The console\<close>

lemma tui_apply_outcome_ext:
  "case tui_apply D cfg w of (r, w') \<Rightarrow>
     r = fst (apply_outcome D cfg w) \<and> ext w w' (snd (apply_outcome D cfg w))"
proof -
  let ?w0 = "emit EvLock w"
  let ?ws = "emit (EvCall ''cfg.Save'' cfg) ?w0"
  have es0: "ext w ?ws [EvLock, EvCall ''cfg.Save'' cfg]"
    using ext_then_emit_call [OF ext_emit_call [of EvLock w], of "EvCall ''cfg.Save'' cfg"]
    by simp
  obtain r1 w1 where s: "Save (env D) (Marshal D) cfg ?ws = (r1, w1)" by fastforce
  from ext_trans [OF es0 ext_Save [OF s]]
  have e1: "ext w w1 [EvLock, EvCall ''cfg.Save'' cfg]" by simp
  show ?thesis
  proof (cases r1)
    case (Some err)
    with s ext_then_emit_call [OF e1, of EvUnlock] show ?thesis
      by (simp add: tui_apply_def apply_outcome_def Let_def)
  next
    case r1None: None
    let ?wn = "emit (EvCall ''nft.Apply'' cfg) w1"
    from ext_then_emit_call [OF e1, of "EvCall ''nft.Apply'' cfg"]
    have en0: "ext w ?wn [EvLock, EvCall ''cfg.Save'' cfg, EvCall ''nft.Apply'' cfg]" by simp
    obtain r2 w2 where n: "nft_Apply (env D) (Quote D) cfg ?wn = (r2, w2)" by fastforce
    from ext_trans [OF en0 ext_nft_Apply [OF n]]
    have e2: "ext w w2 [EvLock, EvCall ''cfg.Save'' cfg, EvCall ''nft.Apply'' cfg]" by simp
    show ?thesis
    proof (cases r2)
      case (Some err)
      with s r1None n ext_then_emit_call [OF e2, of EvUnlock] show ?thesis
        by (simp add: tui_apply_def apply_outcome_def Let_def)
    next
      case r2None: None
      let ?wd = "emit (EvCall ''dnsmasq.Apply'' cfg) w2"
      from ext_then_emit_call [OF e2, of "EvCall ''dnsmasq.Apply'' cfg"]
      have ed0: "ext w ?wd [EvLock, EvCall ''cfg.Save'' cfg, EvCall ''nft.Apply'' cfg,
                            EvCall ''dnsmasq.Apply'' cfg]" by simp
      obtain r3 w3 where d: "dnsmasq_Apply (env D) cfg ?wd = (r3, w3)" by fastforce
      from ext_trans [OF ed0 ext_dnsmasq_Apply [OF d]]
      have e3: "ext w w3 [EvLock, EvCall ''cfg.Save'' cfg, EvCall ''nft.Apply'' cfg,
                          EvCall ''dnsmasq.Apply'' cfg]" by simp
      with s r1None n r2None d ext_then_emit_call [OF e3, of EvUnlock] show ?thesis
        by (simp add: tui_apply_def apply_outcome_def Let_def)
    qed
  qed
qed

lemma tui_apply_outcome:
  "case tui_apply D cfg w of (r, w') \<Rightarrow> (r, calls w w') = apply_outcome D cfg w"
  using tui_apply_outcome_ext [of D cfg w]
  by (auto simp add: prod_eq_iff dest: ext_calls)







subsection \<open>The handlers, one by one\<close>










subsection \<open>Runs on the sample model\<close>















section \<open>The port invariant under the forward handlers\<close>

lemma web_form_fields:
  "web_form ''bridge'' = ''vmbr1''" "web_form ''protocol'' = ''tcp''"
  "web_form ''int_ip'' = ''10.10.10.5''" "web_form ''comment'' = ''web''"
  "web_form ''ext_port'' = ''80''" "web_form ''int_port'' = ''8080''"
  by (simp_all add: web_form_def form_of_def)

lemma web_ports:
  "ParseUint16 ''80'' = Some 80" "ParseUint16 ''8080'' = Some 8080"
  by (simp_all add: ParseUint16_def parse_dec_def)

lemma web_ip: "parseIPv4 go_net ''10.10.10.5'' = Some (IPv4 10 10 10 5)"
  by (simp add: parseIPv4_def go_net_def parse_dotted_def parse_octet_def parse_dec_def)

lemma sample_subnet:
  "parseCIDRv4 go_net ''10.10.10.0/24'' =
     Some \<lparr>net_IP = Addr4 (IPv4 10 10 10 0), net_Mask = [255, 255, 255, 0]\<rparr>"
  "ipInNet (IPv4 10 10 10 5) \<lparr>net_IP = Addr4 (IPv4 10 10 10 0), net_Mask = [255, 255, 255, 0]\<rparr>"
  by code_simp+

lemma web_create:
  assumes "Bridges cfg = [br]" and "Name br = ''vmbr1''" and "Subnet br = ''10.10.10.0/24''"
    and "\<not> port_in_use cfg 80 ''tcp''"
  shows "fst (HandleForwardCreate (sample_deps E) newID web_form cfg w) = Redirect ''/forwards'' 303 \<and>
         fst (snd (HandleForwardCreate (sample_deps E) newID web_form cfg w)) =
           cfg\<lparr>Bridges := [br\<lparr>Forwards := Forwards br @ [web1\<lparr>ID := newID\<rparr>]\<rparr>]\<rparr>"
proof -
  have fb: "FindBridge cfg ''vmbr1'' = Some 0"
    by (simp add: FindBridge_def assms)
  have n: "net (sample_deps E) = go_net"
    by (simp add: sample_deps_def)
  have "fst (HandleForwardCreate (sample_deps E) newID web_form cfg w) = Redirect ''/forwards'' 303 \<and>
         fst (snd (HandleForwardCreate (sample_deps E) newID web_form cfg w)) =
           cfg\<lparr>Bridges := (Bridges cfg)
             [0 := (Bridges cfg ! 0)\<lparr>Forwards := Forwards (Bridges cfg ! 0) @
                [\<lparr>ID = newID, Protocol = web_form ''protocol'', ExtPort = 80,
                  IntIP = web_form ''int_ip'', IntPort = 8080, Comment = web_form ''comment'',
                  Enabled = True\<rparr>]\<rparr>]\<rparr>"
    by (rule HandleForwardCreate_accept [where a = "IPv4 10 10 10 5"
          and n = "\<lparr>net_IP = Addr4 (IPv4 10 10 10 0), net_Mask = [255, 255, 255, 0]\<rparr>"])
      (simp_all add: web_form_fields web_ports web_ip n fb assms sample_subnet)
  then show ?thesis
    by (simp add: web_form_fields assms web1_def)
qed

lemma dup_cfg1_eq: "dup_cfg1 = sample_cfg [sample_bridge\<lparr>Forwards := [web1]\<rparr>]"
  unfolding dup_cfg1_def
  by (subst web_create [where br = "sample_bridge\<lparr>Forwards := []\<rparr>", THEN conjunct2])
    (simp_all add: dup_cfg0_def sample_cfg_def sample_bridge_def port_in_use_def web1_def)

lemma id1_toggle:
  assumes "Bridges cfg = [br]" and "Forwards br = f # fs" and "ID f = ''id1''"
  shows "fst (HandleForwardToggle D (form_of [(''id'', ''id1'')]) cfg w) = Redirect ''/forwards'' 303 \<and>
         fst (snd (HandleForwardToggle D (form_of [(''id'', ''id1'')]) cfg w)) =
           cfg\<lparr>Bridges := [br\<lparr>Forwards := f\<lparr>Enabled := \<not> Enabled f\<rparr> # fs\<rparr>]\<rparr>"
proof -
  have fid: "form_of [(''id'', ''id1'')] ''id'' = ''id1''"
    by (simp add: form_of_def)
  have "FindForward cfg (form_of [(''id'', ''id1'')] ''id'') = Some (0, 0)"
    by (simp add: fid FindForward_def assms)
  from HandleForwardToggle_found [where frm = "form_of [(''id'', ''id1'')]" and D = D and w = w
      and cfg = cfg and i = 0 and j = 0, OF this] show ?thesis
    by (simp add: assms)
qed

lemma dup_cfg2_eq: "dup_cfg2 = sample_cfg [sample_bridge\<lparr>Forwards := [web1\<lparr>Enabled := False\<rparr>]\<rparr>]"
  unfolding dup_cfg2_def dup_cfg1_eq
  by (subst id1_toggle [where br = "sample_bridge\<lparr>Forwards := [web1]\<rparr>" and f = web1 and fs = "[]",
        THEN conjunct2])
    (simp_all add: sample_cfg_def web1_def)

lemma dup_cfg3_eq:
  "dup_cfg3 = sample_cfg [sample_bridge\<lparr>Forwards := [web1\<lparr>Enabled := False\<rparr>, web2]\<rparr>]"
  unfolding dup_cfg3_def dup_cfg2_eq
  by (subst web_create [where br = "sample_bridge\<lparr>Forwards := [web1\<lparr>Enabled := False\<rparr>]\<rparr>",
        THEN conjunct2])
    (simp_all add: sample_cfg_def sample_bridge_def port_in_use_def web1_def web2_def)

lemma dup_cfg4_eq: "dup_cfg4 = sample_cfg [sample_bridge\<lparr>Forwards := [web1, web2]\<rparr>]"
  unfolding dup_cfg4_def dup_cfg3_eq
  by (subst id1_toggle [where br = "sample_bridge\<lparr>Forwards := [web1\<lparr>Enabled := False\<rparr>, web2]\<rparr>"
        and f = "web1\<lparr>Enabled := False\<rparr>" and fs = "[web2]", THEN conjunct2])
    (simp_all add: sample_cfg_def web1_def)

text \<open>
  Claim C2. The handler that creates a forward checks the external port against the
  enabled forwards, and the handler that toggles a forward does not: starting from a
  bridge without forwards, the four requests (create a forward for tcp port 80, switch
  it off, create a second forward for tcp port 80, switch the first one on again) are
  all accepted, and the model they leave holds two enabled forwards for tcp port 80.
\<close>

theorem toggle_breaks_port_invariant:
  "conflict_free (all_forwards dup_cfg0) \<and>
   is_redirect (fst (HandleForwardCreate (sample_deps env_ok) ''id1'' web_form dup_cfg0 world0)) \<and>
   is_redirect (fst (HandleForwardToggle (sample_deps env_ok) (form_of [(''id'', ''id1'')])
                       dup_cfg1 world0)) \<and>
   is_redirect (fst (HandleForwardCreate (sample_deps env_ok) ''id2'' web_form dup_cfg2 world0)) \<and>
   is_redirect (fst (HandleForwardToggle (sample_deps env_ok) (form_of [(''id'', ''id1'')])
                       dup_cfg3 world0)) \<and>
   all_forwards dup_cfg4 = [web1, web2] \<and>
   \<not> conflict_free (all_forwards dup_cfg4)"
proof (intro conjI)
  show "conflict_free (all_forwards dup_cfg0)"
    by (simp add: all_forwards_def dup_cfg0_def sample_cfg_def)
  show "is_redirect (fst (HandleForwardCreate (sample_deps env_ok) ''id1'' web_form dup_cfg0 world0))"
    by (subst web_create [where br = "sample_bridge\<lparr>Forwards := []\<rparr>", THEN conjunct1])
      (simp_all add: dup_cfg0_def sample_cfg_def sample_bridge_def port_in_use_def)
  show "is_redirect (fst (HandleForwardToggle (sample_deps env_ok) (form_of [(''id'', ''id1'')])
                       dup_cfg1 world0))"
    unfolding dup_cfg1_eq
    by (subst id1_toggle [where br = "sample_bridge\<lparr>Forwards := [web1]\<rparr>" and f = web1
          and fs = "[]", THEN conjunct1])
      (simp_all add: sample_cfg_def web1_def)
  show "is_redirect (fst (HandleForwardCreate (sample_deps env_ok) ''id2'' web_form dup_cfg2 world0))"
    unfolding dup_cfg2_eq
    by (subst web_create [where br = "sample_bridge\<lparr>Forwards := [web1\<lparr>Enabled := False\<rparr>]\<rparr>",
          THEN conjunct1])
      (simp_all add: sample_cfg_def sample_bridge_def port_in_use_def web1_def)
  show "is_redirect (fst (HandleForwardToggle (sample_deps env_ok) (form_of [(''id'', ''id1'')])
                       dup_cfg3 world0))"
    unfolding dup_cfg3_eq
    by (subst id1_toggle [where br = "sample_bridge\<lparr>Forwards := [web1\<lparr>Enabled := False\<rparr>, web2]\<rparr>"
          and f = "web1\<lparr>Enabled := False\<rparr>" and fs = "[web2]", THEN conjunct1])
      (simp_all add: sample_cfg_def web1_def)
  show "all_forwards dup_cfg4 = [web1, web2]"
    by (simp add: dup_cfg4_eq all_forwards_def sample_cfg_def)
  show "\<not> conflict_free (all_forwards dup_cfg4)"
    by (simp add: dup_cfg4_eq all_forwards_def sample_cfg_def forwards_conflict_def
        protocols_of_def web1_def web2_def)
qed

section \<open>Properties of the IP usage view\<close>

subsection \<open>The loops as appends\<close>

lemma concat_map_empty [simp]: "concat (map (\<lambda>x. []) xs) = []"
  by (induction xs) simp_all

lemma extend_entry_Nil [simp]: "extend_entry [] eo = eo"
  by (cases eo) (simp_all add: extend_entry_def)

lemma extend_entry_twice [simp]:
  "extend_entry ys (extend_entry xs eo) = extend_entry (xs @ ys) eo"
  by (cases eo) (simp_all add: extend_entry_def)














subsection \<open>Keys, pairs and order\<close>















subsection \<open>The contents of the view\<close>








end
